theory Spec2Isabelle
  imports Complex_Main
begin

section \<open>The notifier of CryptoSig (app/notification.py)\<close>

text \<open>
  A shallow embedding of the class \<open>Notifier\<close>. Python dictionaries are association
  lists in insertion order, read with \<^const>\<open>map_of\<close>; exceptions are values of the
  type \<open>error\<close>; floating-point numbers are abstracted as reals, so rounding, infinities
  and NaN are outside the model.
\<close>

subsection \<open>Values, exceptions and dictionaries\<close>

datatype error =
    KeyError string
  | IndexError
  | TypeError
  | ValueError
  | NameError
  | AttributeError

type_synonym 'v dict = "(string \<times> 'v) list"

text \<open>\<open>d[k]\<close>: the value bound to \<open>k\<close>, or \<open>KeyError\<close>.\<close>

definition getitem :: "'v dict \<Rightarrow> string \<Rightarrow> error + 'v" where
  "getitem d k = (case map_of d k of None \<Rightarrow> Inl (KeyError k) | Some v \<Rightarrow> Inr v)"

text \<open>\<open>d[k] = v\<close>: an existing key keeps its position, a new key goes last.\<close>

fun setitem :: "'v dict \<Rightarrow> string \<Rightarrow> 'v \<Rightarrow> 'v dict" where
  "setitem [] k v = [(k, v)]"
| "setitem ((k', v') # d) k v = (if k' = k then (k, v) # d else (k', v') # setitem d k v)"

text \<open>\<open>{**a, **b}\<close>: a copy of \<open>a\<close> into which the items of \<open>b\<close> are stored in order.\<close>

definition dict_merge :: "'v dict \<Rightarrow> 'v dict \<Rightarrow> 'v dict" where
  "dict_merge a b = fold (\<lambda>(k, v) d. setitem d k v) b a"

text \<open>Sequencing of a computation that may raise, and \<open>try: ... except Exception\<close>.\<close>

definition bind_err :: "error + 'a \<Rightarrow> ('a \<Rightarrow> error + 'b) \<Rightarrow> error + 'b" where
  "bind_err m f = (case m of Inl e \<Rightarrow> Inl e | Inr x \<Rightarrow> f x)"

definition try_except :: "error + 'a \<Rightarrow> (error \<Rightarrow> error + 'a) \<Rightarrow> error + 'a" where
  "try_except body handler = (case body of Inl ex \<Rightarrow> handler ex | Inr x \<Rightarrow> Inr x)"

text \<open>A \<open>for\<close> loop over a list whose body may raise; the exception ends the loop.\<close>

fun for_each :: "('a \<Rightarrow> 's \<Rightarrow> error + 's) \<Rightarrow> 'a list \<Rightarrow> 's \<Rightarrow> error + 's" where
  "for_each body [] s = Inr s"
| "for_each body (x # xs) s =
     (case body x s of Inl e \<Rightarrow> Inl e | Inr s' \<Rightarrow> for_each body xs s')"

text \<open>
  A cell of a result table. The column \<open>is_hot\<close> is a cell like any other and is read
  through Python's truth value.
\<close>

datatype cell = CFloat real | CStr string | CInt int | CBool bool

fun truthy :: "cell \<Rightarrow> bool" where
  "truthy (CFloat x) = (x \<noteq> 0)"
| "truthy (CStr s) = (s \<noteq> [])"
| "truthy (CInt i) = (i \<noteq> 0)"
| "truthy (CBool b) = b"

type_synonym row = "cell dict"

text \<open>
  The \<open>config\<close> dictionary of an analysis record: the keys the notifier reads, each
  possibly missing. Values of another type than the one listed are outside the model.
\<close>

record config =
  signal :: "string list option"
  alert_frequency :: "string option"
  alert_enabled :: "bool option"
  key_signal :: "string option"
  key_indicator_index :: "cell option"
  crossed_signal :: "string option"
  crossed_indicator_index :: "cell option"
  period_count :: "cell option"

text \<open>
  One analysis record \<open>{'config': ..., 'result': DataFrame, 'status': ...}\<close>; the
  data frame is the list of its rows and \<open>status\<close> is absent until it is written.
\<close>

record analysis =
  config :: config
  result :: "row list"
  status :: "string option"

text \<open>
  An element of the list stored under an indicator name: an analysis record, or what
  \<open>notify_webhook\<close> puts in its place (the last row, or the empty string).
\<close>

datatype entry = Analysis analysis | RowObj row | EmptyStr

text \<open>
  The objects the notifier shares and mutates. \<open>new_analysis\<close> and \<open>last_analysis\<close> are
  dictionaries from exchange names to references; the store maps every reference to
  an exchange's dictionary (market, then indicator type, then indicator name, then the
  list of entries). Two dictionaries holding the same reference share the exchange
  object, as \<open>self.last_analysis = new_analysis\<close> and \<open>{**last, **new}\<close> make them do.
  Below an exchange the data are taken to be unshared.
\<close>

type_synonym addr = nat
type_synonym exchange_obj = "entry list dict dict dict"
type_synonym heap = "addr \<Rightarrow> exchange_obj"
type_synonym analysis_dict = "addr dict"

text \<open>The values that travel in \<open>allIndicatorData\<close> and in the template variables.\<close>

datatype pyval =
    Cell cell
  | Config config
  | PList "pyval list"
  | Dict "(string \<times> pyval) list"

abbreviation PStr :: "string \<Rightarrow> pyval" where
  "PStr s \<equiv> Cell (CStr s)"

abbreviation PBool :: "bool \<Rightarrow> pyval" where
  "PBool b \<equiv> Cell (CBool b)"

subsection \<open>Bollinger band classification\<close>

text \<open>\<open>Notifier.bollinger_bands_state_calculation\<close>, lines 446-470.\<close>

definition bollinger_bands_state_calculation :: "real \<Rightarrow> real \<Rightarrow> real \<Rightarrow> real \<Rightarrow> string" where
  "bollinger_bands_state_calculation upperband middleband lowerband v_close =
     (let isInTop = v_close > middleband;
          isDown = v_close < middleband;
          isCold = (if isInTop
                    then (let diff_close = upperband - v_close;
                              diff_med = v_close - middleband
                          in diff_close < diff_med)
                    else False);
          isHot = (if isInTop then False
                   else if isDown
                   then (let diff_close = v_close - lowerband;
                             diff_med = middleband - v_close
                         in diff_close < diff_med)
                   else False)
      in if isCold then ''cold'' else if isHot then ''hot'' else ''neutral'')"

subsection \<open>The notifier, its collaborators and its effects\<close>

text \<open>The settings read from \<open>self.config.settings\<close>.\<close>

record settings =
  max_hot_notification :: int
  max_cold_notification :: int
  period_data :: string

text \<open>The fields of \<open>self\<close> that do not change after \<open>__init__\<close>.\<close>

record notifier =
  hotImoji :: string
  coldImoji :: string
  primaryImoji :: string
  telegram_configured :: bool
  webhook_configured :: bool
  config_settings :: settings

text \<open>The keyword arguments of \<open>message_template.render\<close>.\<close>

record render_ctx =
  r_values :: "pyval dict"
  r_exchange :: string
  r_market :: string
  r_base_currency :: string
  r_quote_currency :: string
  r_indicator :: string
  r_indicator_number :: nat
  r_analysis :: analysis
  r_status :: string
  r_last_status :: pyval

text \<open>
  What the module takes from outside: \<open>format(x, '.8f')\<close>, \<open>str\<close>, \<open>float\<close> on a
  string (\<open>None\<close> when it raises \<open>ValueError\<close>), the Jinja template applied to its
  variables, and the gem emoji.
\<close>

record env =
  fmt8 :: "real \<Rightarrow> string"
  py_str :: "pyval \<Rightarrow> string"
  to_float :: "string \<Rightarrow> real option"
  render :: "string \<Rightarrow> render_ctx \<Rightarrow> string"
  gem :: string

text \<open>
  What a call can change: the shared objects, \<open>self.last_analysis\<close>, and the effects
  on the outside (what was printed, the variables the template was rendered with, the
  messages given to the telegram client and the payloads given to the webhook client).
  The template and the clients are taken not to raise.
\<close>

datatype out = PrintStr string | PrintExc error

record world =
  heap :: heap
  last_analysis :: analysis_dict
  stdout :: "out list"
  rendered :: "render_ctx list"
  telegram_sent :: "string list"
  webhook_sent :: "exchange_obj dict list"

definition print :: "out \<Rightarrow> world \<Rightarrow> world" where
  "print x w = w\<lparr>stdout := stdout w @ [x]\<rparr>"

definition newline :: string where
  "newline = [CHR 0x0A]"

subsection \<open>Reading the dynamically typed values\<close>

definition config_items :: "config \<Rightarrow> pyval dict" where
  "config_items c =
     (case signal c of None \<Rightarrow> [] | Some ss \<Rightarrow> [(''signal'', PList (map PStr ss))]) @
     (case alert_frequency c of None \<Rightarrow> [] | Some f \<Rightarrow> [(''alert_frequency'', PStr f)]) @
     (case alert_enabled c of None \<Rightarrow> [] | Some b \<Rightarrow> [(''alert_enabled'', PBool b)]) @
     (case key_signal c of None \<Rightarrow> [] | Some k \<Rightarrow> [(''key_signal'', PStr k)]) @
     (case key_indicator_index c of None \<Rightarrow> [] | Some i \<Rightarrow> [(''key_indicator_index'', Cell i)]) @
     (case crossed_signal c of None \<Rightarrow> [] | Some k \<Rightarrow> [(''crossed_signal'', PStr k)]) @
     (case crossed_indicator_index c of None \<Rightarrow> []
      | Some i \<Rightarrow> [(''crossed_indicator_index'', Cell i)]) @
     (case period_count c of None \<Rightarrow> [] | Some p \<Rightarrow> [(''period_count'', Cell p)])"

text \<open>\<open>v[k]\<close> for a string key: only dictionaries can be read this way.\<close>

fun py_getitem :: "pyval \<Rightarrow> string \<Rightarrow> error + pyval" where
  "py_getitem (Dict d) k = getitem d k"
| "py_getitem (Config c) k = getitem (config_items c) k"
| "py_getitem (PList l) k = Inl TypeError"
| "py_getitem (Cell c) k = Inl TypeError"

text \<open>A value used as an operand of string concatenation.\<close>

fun as_str :: "pyval \<Rightarrow> error + string" where
  "as_str (Cell (CStr s)) = Inr s"
| "as_str v = Inl TypeError"

fun py_truthy :: "pyval \<Rightarrow> bool" where
  "py_truthy (Cell c) = truthy c"
| "py_truthy (Config c) = (config_items c \<noteq> [])"
| "py_truthy (PList l) = (l \<noteq> [])"
| "py_truthy (Dict d) = (d \<noteq> [])"

text \<open>\<open>float(v)\<close>.\<close>

fun py_float :: "env \<Rightarrow> pyval \<Rightarrow> error + real" where
  "py_float env (Cell (CStr s)) =
     (case to_float env s of None \<Rightarrow> Inl ValueError | Some x \<Rightarrow> Inr x)"
| "py_float env (Cell (CFloat x)) = Inr x"
| "py_float env (Cell (CInt i)) = Inr (of_int i)"
| "py_float env (Cell (CBool b)) = Inr (if b then 1 else 0)"
| "py_float env v = Inl TypeError"

subsection \<open>The composite message\<close>

text \<open>\<open>Notifier.status_generator\<close>, lines 486-497.\<close>

definition status_generator :: "notifier \<Rightarrow> pyval \<Rightarrow> pyval \<Rightarrow> string" where
  "status_generator n primary state =
     (let message =
        (if py_truthy primary \<and> (state = PStr ''cold'' \<or> state = PStr ''hot'')
         then primaryImoji n
         else if state = PStr ''cold'' then coldImoji n
         else if state = PStr ''hot'' then hotImoji n
         else [])
      in '' '' @ (message @ newline))"

text \<open>\<open>Notifier.moving_avg_status\<close>, lines 472-484.\<close>

definition moving_avg_status ::
  "env \<Rightarrow> notifier \<Rightarrow> pyval \<Rightarrow> pyval \<Rightarrow> bool \<Rightarrow> pyval \<Rightarrow> pyval \<Rightarrow> error + string" where
  "moving_avg_status env n key_value crossed_value is_hot key_config crossed_config =
     bind_err (py_getitem key_config ''period_count'') (\<lambda>kp.
     bind_err (py_getitem crossed_config ''period_count'') (\<lambda>cp.
       Inr ((py_str env kp @ (if is_hot then '' up '' else '' down '') @ py_str env cp) @
            status_generator n (PBool False) (PStr (if is_hot then ''hot'' else ''cold'')))))"

text \<open>
  One of the four blocks MFI, RSI, STOCH_RSI and MACD of \<open>notify_custom_telegram\<close>
  (lines 518-536); they differ in the key, the label and the text after the value.
\<close>

definition indicator_block ::
  "notifier \<Rightarrow> pyval dict \<Rightarrow> string \<Rightarrow> string \<Rightarrow> string \<Rightarrow> error + string" where
  "indicator_block n objectsData key label closing =
     bind_err (getitem objectsData key) (\<lambda>ind.
     bind_err (py_getitem ind ''status'') (\<lambda>st.
     bind_err (as_str st) (\<lambda>st_str.
     bind_err (py_getitem ind ''values'') (\<lambda>vals.
     bind_err (py_getitem vals key) (\<lambda>v.
     bind_err (as_str v) (\<lambda>v_str.
     bind_err (py_getitem ind ''primary'') (\<lambda>primary.
       Inr ((label @ st_str @ '' ('' @ v_str @ closing) @ status_generator n primary st))))))))"

text \<open>\<open>objectsData["informants"][name]["result"]\<close>.\<close>

definition informant_result :: "pyval dict \<Rightarrow> string \<Rightarrow> error + pyval" where
  "informant_result objectsData name =
     bind_err (getitem objectsData ''informants'') (\<lambda>infs.
     bind_err (py_getitem infs name) (\<lambda>inf.
       py_getitem inf ''result''))"

text \<open>The body of the \<open>try\<close> of \<open>notify_custom_telegram\<close> up to the finished message.\<close>

definition compose_message :: "env \<Rightarrow> notifier \<Rightarrow> pyval dict \<Rightarrow> error + string" where
  "compose_message env n objectsData =
     bind_err (getitem objectsData ''name'') (\<lambda>name.
     bind_err (as_str name) (\<lambda>name_str.
     bind_err (getitem objectsData ''exchange'') (\<lambda>exch.
     bind_err (as_str exch) (\<lambda>exch_str.
     bind_err (informant_result objectsData ''ohlcv'') (\<lambda>ohlcv.
     bind_err (py_getitem ohlcv ''close'') (\<lambda>close.
     bind_err (as_str close) (\<lambda>close_str.
     bind_err (indicator_block n objectsData ''mfi'' ''MFI - is '' '') '') (\<lambda>mfi.
     bind_err (indicator_block n objectsData ''rsi'' ''RSI - is '' '')'') (\<lambda>rsi.
     bind_err (indicator_block n objectsData ''stoch_rsi'' ''STOCH_RSI - is '' '')'') (\<lambda>stoch_rsi.
     bind_err (indicator_block n objectsData ''macd'' ''MACD - is '' '')'') (\<lambda>macd.
     bind_err (informant_result objectsData ''bollinger_bands'') (\<lambda>bb_result.
     bind_err (py_getitem bb_result ''upperband'') (\<lambda>ub.
     bind_err (py_float env ub) (\<lambda>upperband.
     bind_err (py_getitem bb_result ''middleband'') (\<lambda>mb.
     bind_err (py_float env mb) (\<lambda>middleband.
     bind_err (py_getitem bb_result ''lowerband'') (\<lambda>lb.
     bind_err (py_float env lb) (\<lambda>lowerband.
     bind_err (informant_result objectsData ''ohlcv'') (\<lambda>ohlcv2.
     bind_err (py_getitem ohlcv2 ''close'') (\<lambda>close2.
     bind_err (py_float env close2) (\<lambda>v_close.
     let bollinger_bands_state =
           bollinger_bands_state_calculation upperband middleband lowerband v_close in
     bind_err (getitem objectsData ''crossed'') (\<lambda>crossed.
     bind_err (py_getitem crossed ''ema'') (\<lambda>ema.
     bind_err (py_getitem ema ''key_config'') (\<lambda>ema_key_config.
     bind_err (py_getitem ema ''crossed_config'') (\<lambda>ema_crossed_config.
     bind_err (py_getitem ema ''key_value'') (\<lambda>key_value.
     bind_err (py_getitem ema ''crossed_value'') (\<lambda>crossed_value.
     bind_err (py_getitem ema ''is_hot'') (\<lambda>ema_hot.
     bind_err (moving_avg_status env n key_value crossed_value (py_truthy ema_hot)
                 ema_key_config ema_crossed_config) (\<lambda>mva_stat.
     bind_err (getitem objectsData ''ichimoku'') (\<lambda>ichimoku.
     bind_err (py_getitem ichimoku ''status'') (\<lambda>ichi_status.
     bind_err (as_str ichi_status) (\<lambda>ichi_str.
     bind_err (py_getitem ichimoku ''primary'') (\<lambda>ichi_primary.
       Inr ((gem env @ '' #'' @ name_str @ newline) @
            (period_data (config_settings n) @ '' / '' @ exch_str @ newline) @
            (''#Price -- '' @ close_str @ '' BTC '' @ newline @ newline) @
            mfi @ rsi @ stoch_rsi @ macd @
            (''Bollinger Bands - is '' @ bollinger_bands_state) @
            status_generator n (PBool False) (PStr bollinger_bands_state) @
            (''Moving Average (ema) '' @ mva_stat) @
            (''Ichimoku Cloud - is '' @ ichi_str) @
            status_generator n ichi_primary ichi_status)
     )))))))))))))))))))))))))))))))))"

text \<open>
  \<open>Notifier.notify_custom_telegram\<close>, lines 499-576: the message is assembled, given to
  the telegram client when that is configured, and printed; an exception raised on the
  way is printed by the handler.
\<close>

definition notify_custom_telegram ::
  "env \<Rightarrow> notifier \<Rightarrow> pyval dict \<Rightarrow> world \<Rightarrow> error + world" where
  "notify_custom_telegram env n objectsData w =
     try_except
       (bind_err (compose_message env n objectsData) (\<lambda>message.
          let w1 = (if telegram_configured n
                    then w\<lparr>telegram_sent := telegram_sent w @ [message]\<rparr> else w)
          in Inr (print (PrintStr message) w1)))
       (\<lambda>ex. Inr (print (PrintExc ex) w))"

subsection \<open>Reading and writing the shared objects\<close>

text \<open>\<open>obj[market][indicator_type][indicator]\<close> in the exchange object at \<open>a\<close>.\<close>

definition entries_at :: "heap \<Rightarrow> addr \<Rightarrow> string \<Rightarrow> string \<Rightarrow> string \<Rightarrow> error + entry list" where
  "entries_at h a market indicator_type indicator =
     bind_err (getitem (h a) market) (\<lambda>m.
     bind_err (getitem m indicator_type) (\<lambda>t.
       getitem t indicator))"

text \<open>\<open>obj[market][indicator_type][indicator][index] = v\<close>, in place.\<close>

definition store_entry ::
  "heap \<Rightarrow> addr \<Rightarrow> string \<Rightarrow> string \<Rightarrow> string \<Rightarrow> nat \<Rightarrow> entry \<Rightarrow> error + heap" where
  "store_entry h a market indicator_type indicator index v =
     bind_err (getitem (h a) market) (\<lambda>m.
     bind_err (getitem m indicator_type) (\<lambda>t.
     bind_err (getitem t indicator) (\<lambda>es.
       if index < length es
       then Inr (h(a := setitem (h a) market
                          (setitem m indicator_type (setitem t indicator (es[index := v])))))
       else Inl IndexError)))"

text \<open>\<open>obj[market][indicator_type][indicator][index]['status'] = status\<close>, in place.\<close>

definition set_status ::
  "heap \<Rightarrow> addr \<Rightarrow> string \<Rightarrow> string \<Rightarrow> string \<Rightarrow> nat \<Rightarrow> string \<Rightarrow> error + heap" where
  "set_status h a market indicator_type indicator index st =
     bind_err (entries_at h a market indicator_type indicator) (\<lambda>es.
       if index < length es
       then (case es ! index of
               Analysis an \<Rightarrow>
                 store_entry h a market indicator_type indicator index
                   (Analysis (an\<lparr>status := Some st\<rparr>))
             | RowObj r \<Rightarrow>
                 store_entry h a market indicator_type indicator index
                   (RowObj (setitem r ''status'' (CStr st)))
             | EmptyStr \<Rightarrow> Inl TypeError)
       else Inl IndexError)"

text \<open>
  \<open>self.last_analysis[exchange][market][indicator_type][indicator][index]['status']\<close>
  under the bare \<open>except\<close> of lines 376-380: whatever fails, the answer is \<open>str()\<close>.
\<close>

definition last_status_of ::
  "heap \<Rightarrow> analysis_dict \<Rightarrow> string \<Rightarrow> string \<Rightarrow> string \<Rightarrow> string \<Rightarrow> nat \<Rightarrow> pyval" where
  "last_status_of h last_an exchange market indicator_type indicator index =
     (case getitem last_an exchange of
        Inl ex \<Rightarrow> PStr []
      | Inr a \<Rightarrow>
          (case entries_at h a market indicator_type indicator of
             Inl ex \<Rightarrow> PStr []
           | Inr es \<Rightarrow>
               if index < length es
               then (case es ! index of
                       Analysis an \<Rightarrow> (case status an of None \<Rightarrow> PStr [] | Some st \<Rightarrow> PStr st)
                     | RowObj r \<Rightarrow> (case map_of r ''status'' of None \<Rightarrow> PStr [] | Some c \<Rightarrow> Cell c)
                     | EmptyStr \<Rightarrow> PStr [])
               else PStr []))"

text \<open>
  \<open>analysis['result']\<close> followed by an attribute of the data frame: only an analysis
  record gets through.
\<close>

fun analysis_of :: "entry \<Rightarrow> error + analysis" where
  "analysis_of (Analysis an) = Inr an"
| "analysis_of (RowObj r) =
     (case map_of r ''result'' of None \<Rightarrow> Inl (KeyError ''result'') | Some c \<Rightarrow> Inl AttributeError)"
| "analysis_of EmptyStr = Inl TypeError"

subsection \<open>The webhook\<close>

text \<open>
  \<open>Notifier.notify_webhook\<close>, lines 205-224. \<open>to_dict(orient='records')\<close> is the list of
  the rows as dictionaries.
\<close>

definition webhook_instance ::
  "addr \<Rightarrow> string \<Rightarrow> string \<Rightarrow> string \<Rightarrow> nat \<times> entry \<Rightarrow> heap \<Rightarrow> error + heap" where
  "webhook_instance a market indicator_type indicator = (\<lambda>(index, entry) h.
     bind_err (analysis_of entry) (\<lambda>analysis.
       let analysis_dict = result analysis in
       if analysis_dict \<noteq> []
       then store_entry h a market indicator_type indicator index (RowObj (last analysis_dict))
       else store_entry h a market indicator_type indicator index EmptyStr))"

definition webhook_indicator :: "addr \<Rightarrow> string \<Rightarrow> string \<Rightarrow> string \<Rightarrow> heap \<Rightarrow> error + heap" where
  "webhook_indicator a market indicator_type = (\<lambda>indicator h.
     bind_err (entries_at h a market indicator_type indicator) (\<lambda>es.
       for_each (webhook_instance a market indicator_type indicator) (enumerate 0 es) h))"

definition webhook_type :: "addr \<Rightarrow> string \<Rightarrow> string \<Rightarrow> heap \<Rightarrow> error + heap" where
  "webhook_type a market = (\<lambda>indicator_type h.
     bind_err (getitem (h a) market) (\<lambda>m.
     bind_err (getitem m indicator_type) (\<lambda>t.
       for_each (webhook_indicator a market indicator_type) (map fst t) h)))"

definition webhook_market :: "addr \<Rightarrow> string \<Rightarrow> heap \<Rightarrow> error + heap" where
  "webhook_market a = (\<lambda>market h.
     bind_err (getitem (h a) market) (\<lambda>m.
       for_each (webhook_type a market) (map fst m) h))"

definition webhook_exchange :: "analysis_dict \<Rightarrow> string \<Rightarrow> heap \<Rightarrow> error + heap" where
  "webhook_exchange new_analysis = (\<lambda>exchange h.
     bind_err (getitem new_analysis exchange) (\<lambda>a.
       for_each (webhook_market a) (map fst (h a)) h))"

text \<open>What the webhook client is given: the dictionary with its objects as they are.\<close>

definition deref :: "heap \<Rightarrow> analysis_dict \<Rightarrow> exchange_obj dict" where
  "deref h d = map (\<lambda>(exchange, a). (exchange, h a)) d"

definition notify_webhook :: "notifier \<Rightarrow> analysis_dict \<Rightarrow> world \<Rightarrow> error + world" where
  "notify_webhook n new_analysis w =
     (if webhook_configured n
      then bind_err (for_each (webhook_exchange new_analysis) (map fst new_analysis) (heap w))
             (\<lambda>h. Inr (w\<lparr>heap := h, webhook_sent := webhook_sent w @ [deref h new_analysis]\<rparr>))
      else Inr w)"

subsection \<open>The message templater\<close>

text \<open>
  The local variables of \<open>_indicator_message_templater\<close> that live across loop
  iterations, with the world they act on. \<open>latest_result\<close> is unbound (\<open>None\<close>) until a
  branch assigns it and keeps its value from one instance to the next.
\<close>

record tstate =
  world :: world
  new_message :: string
  latest_result :: "row option"
  sendNotification :: bool
  allIndicatorData :: "pyval dict"
  primaryIndicators :: "string list"
  crossedData :: "pyval dict"
  informatntData :: "pyval dict"
  couldCount :: nat
  hotCount :: nat

text \<open>\<open>market.split('/')\<close> and the unpacking into two names.\<close>

fun split_on :: "char \<Rightarrow> string \<Rightarrow> string list" where
  "split_on c [] = [] # []"
| "split_on c (x # xs) =
     (if x = c then [] # split_on c xs
      else (case split_on c xs of [] \<Rightarrow> [x] # [] | p # ps \<Rightarrow> (x # p) # ps))"

definition split_market :: "string \<Rightarrow> error + string \<times> string" where
  "split_market market =
     (case split_on (CHR ''/'') market of
        [base_currency, quote_currency] \<Rightarrow> Inr (base_currency, quote_currency)
      | _ \<Rightarrow> Inl ValueError)"

text \<open>A float is replaced by its text with eight decimals (lines 312-313).\<close>

fun format_value :: "env \<Rightarrow> cell \<Rightarrow> pyval" where
  "format_value env (CFloat x) = PStr (fmt8 env x)"
| "format_value env c = Cell c"

text \<open>The loop \<open>for signal in analysis['config']['signal']\<close> (lines 308-313, 320-325).\<close>

definition signal_values :: "env \<Rightarrow> analysis \<Rightarrow> error + pyval dict" where
  "signal_values env an =
     (case signal (config an) of
        None \<Rightarrow> Inl (KeyError ''signal'')
      | Some sigs \<Rightarrow>
          for_each (\<lambda>sig vals.
              bind_err (getitem (last (result an)) sig) (\<lambda>v.
                Inr (setitem vals sig (format_value env v))))
            sigs [])"

text \<open>
  The assignment \<open>latest_result = analysis['result'].iloc[-1]\<close> inside that loop: it is
  made only when the list of signals is not empty.
\<close>

definition bind_latest :: "analysis \<Rightarrow> tstate \<Rightarrow> tstate" where
  "bind_latest an s =
     (case signal (config an) of
        Some (sig # sigs) \<Rightarrow> s\<lparr>latest_result := Some (last (result an))\<rparr>
      | _ \<Rightarrow> s)"

text \<open>The branch \<open>informants\<close>, lines 307-317.\<close>

definition informants_step :: "env \<Rightarrow> string \<Rightarrow> analysis \<Rightarrow> tstate \<Rightarrow> error + tstate" where
  "informants_step env indicator an s =
     bind_err (signal_values env an) (\<lambda>vals.
       let informent_result = Dict [(''result'', Dict vals), (''config'', Config (config an))]
       in Inr ((bind_latest an s)
                 \<lparr>informatntData := setitem (informatntData s) indicator informent_result\<rparr>))"

text \<open>\<open>obj[market]['informants'][name][i]["config"]\<close> (lines 354-357).\<close>

definition informant_config :: "heap \<Rightarrow> addr \<Rightarrow> string \<Rightarrow> string \<Rightarrow> nat \<Rightarrow> error + pyval" where
  "informant_config h a market name i =
     bind_err (entries_at h a market ''informants'' name) (\<lambda>es.
       if i < length es
       then (case es ! i of
               Analysis an \<Rightarrow> Inr (Config (config an))
             | RowObj r \<Rightarrow> bind_err (getitem r ''config'') (\<lambda>c. Inr (Cell c))
             | EmptyStr \<Rightarrow> Inl TypeError)
       else Inl IndexError)"

text \<open>\<open>'{}_{}'.format(name, index)\<close>.\<close>

definition signal_key :: "env \<Rightarrow> string \<Rightarrow> cell \<Rightarrow> string" where
  "signal_key env name idx = name @ ''_'' @ py_str env (Cell idx)"

text \<open>The branch \<open>crossovers\<close>, lines 327-360.\<close>

definition crossovers_step ::
  "env \<Rightarrow> addr \<Rightarrow> string \<Rightarrow> analysis \<Rightarrow> tstate \<Rightarrow> error + tstate" where
  "crossovers_step env a market an s =
     (let latest = last (result an);
          cfg = config an
      in
      bind_err (case key_signal cfg of None \<Rightarrow> Inl (KeyError ''key_signal'') | Some k \<Rightarrow> Inr k)
        (\<lambda>ks.
      bind_err (case key_indicator_index cfg of
                  None \<Rightarrow> Inl (KeyError ''key_indicator_index'') | Some i \<Rightarrow> Inr i) (\<lambda>ki.
      bind_err (case crossed_signal cfg of
                  None \<Rightarrow> Inl (KeyError ''crossed_signal'') | Some k \<Rightarrow> Inr k) (\<lambda>cs.
      bind_err (case crossed_indicator_index cfg of
                  None \<Rightarrow> Inl (KeyError ''crossed_indicator_index'') | Some i \<Rightarrow> Inr i) (\<lambda>ci.
      let key_sig = signal_key env ks ki;
          crossed_sig = signal_key env cs ci
      in
      bind_err (getitem latest key_sig) (\<lambda>kv.
      bind_err (getitem latest crossed_sig) (\<lambda>cv.
      let vals = setitem (setitem [] key_sig (format_value env kv))
                   crossed_sig (format_value env cv);
          name = take (length key_sig - 2) key_sig
      in
      bind_err (getitem vals key_sig) (\<lambda>key_value.
      bind_err (getitem vals crossed_sig) (\<lambda>crossed_value.
      bind_err (getitem latest ''is_hot'') (\<lambda>hot.
      bind_err (getitem latest ''is_cold'') (\<lambda>cold.
      bind_err (informant_config (heap (world s)) a market name 0) (\<lambda>key_config.
      bind_err (informant_config (heap (world s)) a market name 1) (\<lambda>crossed_config.
      let dataCros = Dict [(''name'', PStr name), (''key_value'', key_value),
                           (''crossed_value'', crossed_value),
                           (''is_hot'', PBool (truthy hot)), (''is_cold'', PBool (truthy cold)),
                           (''key_config'', key_config), (''crossed_config'', crossed_config)]
      in Inr (s\<lparr>latest_result := Some latest,
                allIndicatorData := setitem (allIndicatorData s) ''crosed'' (PBool True),
                crossedData := setitem (crossedData s) name dataCros\<rparr>))))))))))))))"

text \<open>
  The \<open>try\<close> of lines 382-391: the decision, and the exception printed by the handler
  when a key of the configuration is missing.
\<close>

definition should_alert_of :: "config \<Rightarrow> pyval \<Rightarrow> string \<Rightarrow> bool \<times> error option" where
  "should_alert_of cfg last_status st =
     (case alert_frequency cfg of
        None \<Rightarrow> (True, Some (KeyError ''alert_frequency''))
      | Some f \<Rightarrow>
          (let should_alert = (if f = ''once'' \<and> last_status = PStr st then False else True)
           in case alert_enabled cfg of
                None \<Rightarrow> (should_alert, Some (KeyError ''alert_enabled''))
              | Some enabled \<Rightarrow> (if \<not> enabled then False else should_alert, None)))"

text \<open>
  Lines 362-370: the status read from \<open>latest_result\<close>, with the truth values of
  \<open>is_hot\<close> and of \<open>is_cold\<close> (the latter is read only when the former is false).
\<close>

definition classify :: "row option \<Rightarrow> error + string" where
  "classify latest =
     (case latest of
        None \<Rightarrow> Inl NameError
      | Some lr \<Rightarrow>
          bind_err (getitem lr ''is_hot'') (\<lambda>hot.
            if truthy hot then Inr ''hot''
            else bind_err (getitem lr ''is_cold'') (\<lambda>cold.
                   if truthy cold then Inr ''cold'' else Inr ''neutral'')))"

text \<open>The variables the template is rendered with, lines 411-422.\<close>

definition template_variables ::
  "pyval dict \<Rightarrow> string \<Rightarrow> string \<Rightarrow> string \<Rightarrow> string \<Rightarrow> string \<Rightarrow> nat \<Rightarrow> analysis \<Rightarrow> string \<Rightarrow>
   pyval \<Rightarrow> render_ctx" where
  "template_variables vals exchange market base_currency quote_currency indicator index an st
     last_status =
     \<lparr>r_values = vals, r_exchange = exchange, r_market = market,
      r_base_currency = base_currency, r_quote_currency = quote_currency,
      r_indicator = indicator, r_indicator_number = index,
      r_analysis = an\<lparr>status := Some st\<rparr>, r_status = st,
      r_last_status = last_status\<rparr>"

text \<open>The \<open>jsonIndicator\<close> of lines 393-430.\<close>

definition json_indicator ::
  "pyval dict \<Rightarrow> string \<Rightarrow> string \<Rightarrow> string \<Rightarrow> string \<Rightarrow> string \<Rightarrow> nat \<Rightarrow> analysis \<Rightarrow> string \<Rightarrow>
   pyval \<Rightarrow> bool \<Rightarrow> pyval" where
  "json_indicator vals exchange market base_currency quote_currency indicator index an st
     last_status primary =
     Dict [(''values'', Dict vals), (''exchange'', PStr exchange),
           (''market'', PStr market), (''base_currency'', PStr base_currency),
           (''quote_currency'', PStr quote_currency), (''indicator'', PStr indicator),
           (''indicator_number'', Cell (CInt (int index))), (''config'', Config (config an)),
           (''status'', PStr st), (''last_status'', last_status), (''primary'', PBool primary)]"

text \<open>Lines 362-432, reached by every instance that no branch ended with \<open>continue\<close>.\<close>

definition alert_step ::
  "env \<Rightarrow> string \<Rightarrow> addr \<Rightarrow> string \<Rightarrow> string \<Rightarrow> string \<Rightarrow> string \<Rightarrow> string \<Rightarrow> string \<Rightarrow> nat \<Rightarrow>
   analysis \<Rightarrow> pyval dict \<Rightarrow> tstate \<Rightarrow> error + tstate" where
  "alert_step env template a exchange market base_currency quote_currency indicator_type
     indicator index an vals s =
     bind_err (classify (latest_result s)) (\<lambda>st.
     let counted = (indicator \<noteq> ''ichimoku'' \<and> indicator_type \<noteq> ''informants''
                    \<and> indicator_type \<noteq> ''crossovers'');
         hot_cold = (st = ''hot'' \<or> st = ''cold'');
         s1 = s\<lparr>hotCount := (if st = ''hot'' \<and> counted then hotCount s + 1 else hotCount s),
                couldCount := (if st = ''cold'' \<and> counted then couldCount s + 1 else couldCount s)\<rparr>
     in
     bind_err (set_status (heap (world s)) a market indicator_type indicator index st) (\<lambda>h.
     let last_status = last_status_of h (last_analysis (world s)) exchange market
                         indicator_type indicator index;
         decision = should_alert_of (config an) last_status st;
         should_alert = fst decision;
         w1 = (world s)\<lparr>heap := h\<rparr>;
         w2 = (case snd decision of None \<Rightarrow> w1 | Some ex \<Rightarrow> print (PrintExc ex) w1);
         fires = (hot_cold \<and> should_alert);
         primaries = (if fires then primaryIndicators s @ [indicator] else primaryIndicators s);
         primary = (if fires then length primaries = 0 else False);
         jsonIndicator = json_indicator vals exchange market base_currency quote_currency
                           indicator index an st last_status primary;
         ctx = template_variables vals exchange market base_currency quote_currency
                 indicator index an st last_status;
         w3 = (if fires then w2\<lparr>rendered := rendered w2 @ [ctx]\<rparr> else w2);
         message = (if fires then new_message s @ render env template ctx else new_message s)
     in Inr (s1\<lparr>world := w3,
                new_message := message,
                sendNotification := (if fires then True else sendNotification s),
                primaryIndicators := primaries,
                allIndicatorData := setitem (allIndicatorData s) indicator jsonIndicator\<rparr>)))"

text \<open>The body of the loop over the instances of an indicator, lines 300-432.\<close>

definition process_instance ::
  "env \<Rightarrow> string \<Rightarrow> addr \<Rightarrow> string \<Rightarrow> string \<Rightarrow> string \<Rightarrow> string \<Rightarrow> string \<Rightarrow> string \<Rightarrow>
   nat \<times> entry \<Rightarrow> tstate \<Rightarrow> error + tstate" where
  "process_instance env template a exchange market base_currency quote_currency indicator_type
     indicator = (\<lambda>(index, entry) s.
     bind_err (analysis_of entry) (\<lambda>an.
       if result an = [] then Inr s
       else if indicator_type = ''informants'' then informants_step env indicator an s
       else if indicator_type = ''indicators''
       then bind_err (signal_values env an) (\<lambda>vals.
              alert_step env template a exchange market base_currency quote_currency
                indicator_type indicator index an vals (bind_latest an s))
       else if indicator_type = ''crossovers'' then crossovers_step env a market an s
       else alert_step env template a exchange market base_currency quote_currency
              indicator_type indicator index an [] s))"

text \<open>The iteration over the indicators and over the indicator types, lines 294-300.\<close>

definition indicator_body ::
  "env \<Rightarrow> string \<Rightarrow> addr \<Rightarrow> string \<Rightarrow> string \<Rightarrow> string \<Rightarrow> string \<Rightarrow> string \<Rightarrow> string \<Rightarrow>
   tstate \<Rightarrow> error + tstate" where
  "indicator_body env template a exchange market base_currency quote_currency indicator_type =
     (\<lambda>indicator s.
        bind_err (entries_at (heap (world s)) a market indicator_type indicator) (\<lambda>es.
          for_each (process_instance env template a exchange market base_currency
                      quote_currency indicator_type indicator) (enumerate 0 es) s))"

definition type_body ::
  "env \<Rightarrow> string \<Rightarrow> addr \<Rightarrow> string \<Rightarrow> string \<Rightarrow> string \<Rightarrow> string \<Rightarrow> string \<Rightarrow>
   tstate \<Rightarrow> error + tstate" where
  "type_body env template a exchange market base_currency quote_currency =
     (\<lambda>indicator_type s.
        let s1 = s\<lparr>world := print (PrintStr indicator_type) (world s)\<rparr> in
        bind_err (getitem (heap (world s1) a) market) (\<lambda>m.
        bind_err (getitem m indicator_type) (\<lambda>t.
          for_each (indicator_body env template a exchange market base_currency
                      quote_currency indicator_type) (map fst t) s1)))"

text \<open>The test of lines 434-435.\<close>

definition composite_fires :: "notifier \<Rightarrow> tstate \<Rightarrow> bool" where
  "composite_fires n s =
     (sendNotification s = True \<and> length (primaryIndicators s) \<ge> 2 \<and>
      (int (hotCount s) \<ge> max_hot_notification (config_settings n) \<or>
       int (couldCount s) \<ge> max_cold_notification (config_settings n)))"

text \<open>Lines 433-439: the composite alert of a pair.\<close>

definition pair_finish :: "env \<Rightarrow> notifier \<Rightarrow> tstate \<Rightarrow> error + tstate" where
  "pair_finish env n s =
     (if composite_fires n s
      then (let data = setitem (setitem (allIndicatorData s) ''crossed'' (Dict (crossedData s)))
                         ''informants'' (Dict (informatntData s));
                w1 = print (PrintStr (''Hot : '' @ py_str env (Cell (CInt (int (hotCount s))))
                                      @ ''  cold : ''
                                      @ py_str env (Cell (CInt (int (couldCount s)))))) (world s)
            in bind_err (notify_custom_telegram env n data w1) (\<lambda>w2.
                 Inr (s\<lparr>world := w2, allIndicatorData := data\<rparr>)))
      else Inr s)"

text \<open>The per-pair variables as lines 281-292 set them.\<close>

definition pair_start :: "string \<Rightarrow> string \<Rightarrow> string \<Rightarrow> tstate \<Rightarrow> tstate" where
  "pair_start exchange base_currency quote_currency s =
     s\<lparr>sendNotification := False,
       allIndicatorData := [(''name'', PStr (base_currency @ quote_currency)),
                            (''exchange'', PStr exchange),
                            (''crossed'', Dict []), (''informants'', Dict [])],
       primaryIndicators := [],
       crossedData := [],
       informatntData := [],
       couldCount := 0,
       hotCount := 0\<rparr>"

text \<open>The loop over the indicator types of a pair, lines 294-432.\<close>

definition pair_loop ::
  "env \<Rightarrow> string \<Rightarrow> addr \<Rightarrow> string \<Rightarrow> string \<Rightarrow> string \<Rightarrow> string \<Rightarrow> tstate \<Rightarrow> error + tstate" where
  "pair_loop env template a exchange market base_currency quote_currency s =
     bind_err (getitem (heap (world s) a) market) (\<lambda>m.
       for_each (type_body env template a exchange market base_currency quote_currency)
         (map fst m) s)"

text \<open>The body of the loop over the markets of an exchange, lines 277-439.\<close>

definition market_body ::
  "env \<Rightarrow> notifier \<Rightarrow> string \<Rightarrow> addr \<Rightarrow> string \<Rightarrow> string \<Rightarrow> tstate \<Rightarrow> error + tstate" where
  "market_body env n template a exchange = (\<lambda>market s.
     bind_err (split_market market) (\<lambda>(base_currency, quote_currency).
     bind_err (pair_loop env template a exchange market base_currency quote_currency
                 (pair_start exchange base_currency quote_currency s)) (\<lambda>s2.
       pair_finish env n s2)))"

definition exchange_body ::
  "env \<Rightarrow> notifier \<Rightarrow> string \<Rightarrow> analysis_dict \<Rightarrow> string \<Rightarrow> tstate \<Rightarrow> error + tstate" where
  "exchange_body env n template new_analysis = (\<lambda>exchange s.
     bind_err (getitem new_analysis exchange) (\<lambda>a.
       for_each (market_body env n template a exchange) (map fst (heap (world s) a)) s))"

text \<open>
  \<open>Notifier._indicator_message_templater\<close>, lines 258-444. When an exception leaves
  the function the cycle is over; the model does not describe the state it leaves.
\<close>

definition start_state :: "world \<Rightarrow> tstate" where
  "start_state w =
     \<lparr>world = w, new_message = [], latest_result = None, sendNotification = False,
      allIndicatorData = [], primaryIndicators = [], crossedData = [], informatntData = [],
      couldCount = 0, hotCount = 0\<rparr>"

definition indicator_message_templater ::
  "env \<Rightarrow> notifier \<Rightarrow> analysis_dict \<Rightarrow> string \<Rightarrow> world \<Rightarrow> error + string \<times> world" where
  "indicator_message_templater env n new_analysis template w =
     (let w1 = (if last_analysis w = [] then w\<lparr>last_analysis := new_analysis\<rparr> else w) in
      bind_err (for_each (exchange_body env n template new_analysis) (map fst new_analysis)
                  (start_state w1)) (\<lambda>s.
        Inr (new_message s,
             (world s)\<lparr>last_analysis := dict_merge (last_analysis (world s)) new_analysis\<rparr>)))"

subsection \<open>The analysis data apart from the status\<close>

text \<open>
  An exchange object with every \<open>status\<close> key removed, used to say what a call leaves
  as it was.
\<close>

fun entry_without_status :: "entry \<Rightarrow> entry" where
  "entry_without_status (Analysis an) = Analysis (an\<lparr>status := None\<rparr>)"
| "entry_without_status (RowObj r) = RowObj (filter (\<lambda>kv. fst kv \<noteq> ''status'') r)"
| "entry_without_status EmptyStr = EmptyStr"

definition map_values :: "('a \<Rightarrow> 'b) \<Rightarrow> 'a dict \<Rightarrow> 'b dict" where
  "map_values f d = map (\<lambda>kv. (fst kv, f (snd kv))) d"

definition without_status :: "exchange_obj \<Rightarrow> exchange_obj" where
  "without_status obj =
     map_values (map_values (map_values (map entry_without_status))) obj"

subsection \<open>The webhook payload in the words of the specification\<close>

text \<open>
  The specification says that every instance is reduced to its last row, or to the
  empty string when its result has no rows. \<open>collapsed\<close> does this to an exchange
  object, as a function; \<open>well_formed\<close> says that the keys of each dictionary are
  distinct and that every entry is an analysis record.
\<close>

fun collapsed_entry :: "entry \<Rightarrow> entry" where
  "collapsed_entry (Analysis an) = (if result an = [] then EmptyStr else RowObj (last (result an)))"
| "collapsed_entry e = e"

definition collapsed :: "exchange_obj \<Rightarrow> exchange_obj" where
  "collapsed obj = map_values (map_values (map_values (map collapsed_entry))) obj"

fun is_record :: "entry \<Rightarrow> bool" where
  "is_record (Analysis an) = True"
| "is_record e = False"

definition records_only :: "entry list \<Rightarrow> bool" where
  "records_only es = list_all is_record es"

definition well_formed :: "exchange_obj \<Rightarrow> bool" where
  "well_formed obj \<longleftrightarrow>
     distinct (map fst obj) \<and>
     (\<forall>m \<in> snd ` set obj. distinct (map fst m) \<and>
        (\<forall>t \<in> snd ` set m. distinct (map fst t) \<and>
           (\<forall>es \<in> snd ` set t. records_only es)))"

subsection \<open>Example inputs\<close>

text \<open>
  Stand-ins for the collaborators and a small analysis: the exchange \<open>binance\<close> with
  the market \<open>BTC/USDT\<close> and the indicators \<open>rsi\<close> (alerting once) and \<open>ichimoku\<close>
  (alerting always), one instance each, whose only row is hot.
\<close>

definition sample_env :: env where
  "sample_env =
     \<lparr>fmt8 = (\<lambda>x. ''0.00000000''),
      py_str = (\<lambda>v. case v of Cell (CStr s) \<Rightarrow> s | _ \<Rightarrow> ''0''),
      to_float = (\<lambda>s. Some 0),
      render = (\<lambda>template ctx. r_indicator ctx @ '' is '' @ r_status ctx @ ''; ''),
      gem = ''*''\<rparr>"

definition sample_notifier :: notifier where
  "sample_notifier =
     \<lparr>hotImoji = ''H '', coldImoji = ''C '', primaryImoji = ''P '',
      telegram_configured = True, webhook_configured = True,
      config_settings = \<lparr>max_hot_notification = 1, max_cold_notification = 1,
                          period_data = ''1h''\<rparr>\<rparr>"

definition hot_row :: row where
  "hot_row = [(''rsi'', CFloat 25), (''is_hot'', CBool True), (''is_cold'', CBool False)]"

definition once_config :: config where
  "once_config =
     \<lparr>signal = Some [''rsi''], alert_frequency = Some ''once'', alert_enabled = Some True,
      key_signal = None, key_indicator_index = None, crossed_signal = None,
      crossed_indicator_index = None, period_count = None\<rparr>"

definition rsi_record :: analysis where
  "rsi_record = \<lparr>config = once_config, result = [hot_row], status = None\<rparr>"

definition ichimoku_row :: row where
  "ichimoku_row =
     [(''leading_span_a'', CFloat 7), (''is_hot'', CBool True), (''is_cold'', CBool False)]"

definition ichimoku_record :: analysis where
  "ichimoku_record =
     \<lparr>config = once_config\<lparr>signal := Some [''leading_span_a''],
                          alert_frequency := Some ''always''\<rparr>,
      result = [ichimoku_row], status = None\<rparr>"

definition sample_exchange :: exchange_obj where
  "sample_exchange =
     [(''BTC/USDT'',
       [(''indicators'',
         [(''rsi'', [Analysis rsi_record]), (''ichimoku'', [Analysis ichimoku_record])])])]"

definition sample_analysis :: analysis_dict where
  "sample_analysis = [(''binance'', 0)]"

text \<open>The world before the first cycle: nothing recorded, the analysis at reference 0.\<close>

definition first_world :: world where
  "first_world =
     \<lparr>heap = (\<lambda>a. if a = 0 then sample_exchange else []), last_analysis = [],
      stdout = [], rendered = [], telegram_sent = [], webhook_sent = []\<rparr>"

text \<open>
  A later cycle: \<open>last_analysis\<close> holds another object for \<open>binance\<close> (reference 1, in
  which nothing is recorded for the market) and an exchange that the new analysis does
  not mention.
\<close>

definition later_world :: world where
  "later_world = first_world\<lparr>last_analysis := [(''kraken'', 2), (''binance'', 1)]\<rparr>"

definition later_state :: tstate where
  "later_state = pair_start ''binance'' ''BTC'' ''USDT'' (start_state later_world)"

section \<open>Properties\<close>

subsection \<open>Sequencing, dictionaries and iteration\<close>

lemma bind_err_simps [simp]:
  "bind_err (Inl e) f = Inl e"
  "bind_err (Inr x) f = f x"
  by (simp_all add: bind_err_def)

lemma bind_err_Inr:
  "bind_err m f = Inr y \<longleftrightarrow> (\<exists>x. m = Inr x \<and> f x = Inr y)"
  by (cases m) simp_all

lemma bind_err_fails: "(\<And>x. \<exists>e. f x = Inl e) \<Longrightarrow> \<exists>e. bind_err m f = Inl e"
  by (cases m) simp_all

lemma getitem_Inr: "getitem d k = Inr v \<longleftrightarrow> map_of d k = Some v"
  by (simp add: getitem_def split: option.splits)

lemma getitem_None: "map_of d k = None \<Longrightarrow> getitem d k = Inl (KeyError k)"
  by (simp add: getitem_def)

lemma map_of_setitem: "map_of (setitem d k v) k' = (if k' = k then Some v else map_of d k')"
  by (induction d k v rule: setitem.induct) auto

lemma analysis_of_Inr: "analysis_of e = Inr an \<longleftrightarrow> e = Analysis an"
  by (cases e) (auto split: option.splits)

lemmas sample_defs = sample_env_def sample_notifier_def hot_row_def once_config_def
  rsi_record_def ichimoku_row_def ichimoku_record_def sample_exchange_def sample_analysis_def first_world_def later_world_def
  later_state_def

lemmas step_defs = process_instance_def signal_values_def bind_latest_def alert_step_def
  classify_def set_status_def store_entry_def entries_at_def last_status_of_def
  should_alert_of_def getitem_def print_def template_variables_def json_indicator_def
  start_state_def pair_start_def

subsection \<open>The composite path\<close>

lemma indicator_block_missing:
  "map_of d k = None \<Longrightarrow> indicator_block n d k l c = Inl (KeyError k)"
  by (simp add: indicator_block_def getitem_None)

lemma informant_result_missing:
  "map_of d ''informants'' = None \<Longrightarrow> informant_result d nm = Inl (KeyError ''informants'')"
  by (simp add: informant_result_def getitem_None)

lemma compose_missing_key:
  "map_of d ''name'' = None \<Longrightarrow> \<exists>ex. compose_message env n d = Inl ex"
  "map_of d ''exchange'' = None \<Longrightarrow> \<exists>ex. compose_message env n d = Inl ex"
  "map_of d ''informants'' = None \<Longrightarrow> \<exists>ex. compose_message env n d = Inl ex"
  "map_of d ''mfi'' = None \<Longrightarrow> \<exists>ex. compose_message env n d = Inl ex"
  "map_of d ''rsi'' = None \<Longrightarrow> \<exists>ex. compose_message env n d = Inl ex"
  "map_of d ''stoch_rsi'' = None \<Longrightarrow> \<exists>ex. compose_message env n d = Inl ex"
  "map_of d ''macd'' = None \<Longrightarrow> \<exists>ex. compose_message env n d = Inl ex"
  "map_of d ''crossed'' = None \<Longrightarrow> \<exists>ex. compose_message env n d = Inl ex"
  "map_of d ''ichimoku'' = None \<Longrightarrow> \<exists>ex. compose_message env n d = Inl ex"
  unfolding compose_message_def Let_def
  by (((simp add: getitem_None indicator_block_missing informant_result_missing; fail)
        | rule bind_err_fails)+)

lemma notify_custom_telegram_cases:
  "notify_custom_telegram env n d w =
     (case compose_message env n d of
        Inl ex \<Rightarrow> Inr (print (PrintExc ex) w)
      | Inr message \<Rightarrow>
          Inr (print (PrintStr message)
                 (if telegram_configured n
                  then w\<lparr>telegram_sent := telegram_sent w @ [message]\<rparr> else w)))"
  by (cases "compose_message env n d")
     (simp_all add: notify_custom_telegram_def try_except_def Let_def)

text \<open>
  C9. Whatever is given to \<open>notify_custom_telegram\<close>, it returns without an
  exception. When the assembly of the message raises (as it does when one of the
  top-level keys it reads is missing), the exception is printed, the telegram client
  is not called, and the shared objects, \<open>last_analysis\<close> and the rendered fragments
  are as before. The end of a pair, where the call is made, therefore never raises
  and leaves the message built so far and the analysis data as they were.
\<close>

theorem composite_faults_are_caught:
  "(\<exists>w'. notify_custom_telegram env n objectsData w = Inr w') \<and>
   (\<forall>ex. compose_message env n objectsData = Inl ex \<longrightarrow>
      notify_custom_telegram env n objectsData w = Inr (print (PrintExc ex) w) \<and>
      telegram_sent (print (PrintExc ex) w) = telegram_sent w \<and>
      stdout (print (PrintExc ex) w) = stdout w @ [PrintExc ex] \<and>
      heap (print (PrintExc ex) w) = heap w \<and>
      last_analysis (print (PrintExc ex) w) = last_analysis w \<and>
      rendered (print (PrintExc ex) w) = rendered w) \<and>
   (\<forall>k \<in> {''name'', ''exchange'', ''informants'', ''mfi'', ''rsi'', ''stoch_rsi'', ''macd'',
           ''crossed'', ''ichimoku''}.
      map_of objectsData k = None \<longrightarrow> (\<exists>ex. compose_message env n objectsData = Inl ex)) \<and>
   (\<exists>s'. pair_finish env n s = Inr s' \<and> new_message s' = new_message s \<and>
         rendered (world s') = rendered (world s) \<and> heap (world s') = heap (world s))"
proof (intro conjI allI impI ballI)
  show "\<exists>w'. notify_custom_telegram env n objectsData w = Inr w'"
    by (simp add: notify_custom_telegram_cases split: sum.splits)
next
  show "\<exists>s'. pair_finish env n s = Inr s' \<and> new_message s' = new_message s \<and>
         rendered (world s') = rendered (world s) \<and> heap (world s') = heap (world s)"
    by (cases "composite_fires n s")
       (auto simp: pair_finish_def Let_def notify_custom_telegram_cases print_def
             split: sum.splits)
next
  fix ex assume "compose_message env n objectsData = Inl ex"
  then show "notify_custom_telegram env n objectsData w = Inr (print (PrintExc ex) w)"
    by (simp add: notify_custom_telegram_cases)
next
  fix k assume "k \<in> {''name'', ''exchange'', ''informants'', ''mfi'', ''rsi'', ''stoch_rsi'',
                     ''macd'', ''crossed'', ''ichimoku''}"
    and "map_of objectsData k = None"
  then show "\<exists>ex. compose_message env n objectsData = Inl ex"
    using compose_missing_key[of objectsData env n] by blast
qed (simp_all add: print_def)

theorem composite_faults_are_caught_witness:
  "compose_message sample_env sample_notifier [(''name'', PStr ''BTCUSDT'')]
     = Inl (KeyError ''exchange'') \<and>
   notify_custom_telegram sample_env sample_notifier [(''name'', PStr ''BTCUSDT'')] first_world
     = Inr (print (PrintExc (KeyError ''exchange'')) first_world) \<and>
   telegram_sent (print (PrintExc (KeyError ''exchange'')) first_world) = []"
proof -
  have raised: "compose_message sample_env sample_notifier [(''name'', PStr ''BTCUSDT'')]
                  = Inl (KeyError ''exchange'')"
    by (simp add: compose_message_def getitem_def)
  from composite_faults_are_caught[of sample_env sample_notifier
         "[(''name'', PStr ''BTCUSDT'')]" first_world later_state] raised
  show ?thesis by (simp add: print_def first_world_def)
qed


subsection \<open>The shared objects\<close>




lemma store_entry_other: "store_entry h a mk ty ind i v = Inr h' \<Longrightarrow> a' \<noteq> a \<Longrightarrow> h' a' = h a'"
  by (auto simp: store_entry_def bind_err_Inr split: if_splits)

lemma set_status_other: "set_status h a mk ty ind i st = Inr h' \<Longrightarrow> a' \<noteq> a \<Longrightarrow> h' a' = h a'"
  by (auto simp: set_status_def bind_err_Inr store_entry_other split: if_splits entry.splits)


subsection \<open>One instance\<close>

lemma alert_step_effect:
  assumes "alert_step env template a exchange market b q ty indicator index an vals s = Inr s'"
  obtains st h ls fires where
    "classify (latest_result s) = Inr st"
    "set_status (heap (world s)) a market ty indicator index st = Inr h"
    "ls = last_status_of h (last_analysis (world s)) exchange market ty indicator index"
    "fires = ((st = ''hot'' \<or> st = ''cold'') \<and> fst (should_alert_of (config an) ls st))"
    "heap (world s') = h"
    "latest_result s' = latest_result s"
    "last_analysis (world s') = last_analysis (world s)"
    "telegram_sent (world s') = telegram_sent (world s)"
    "webhook_sent (world s') = webhook_sent (world s)"
    "primaryIndicators s' = (if fires then primaryIndicators s @ [indicator] else primaryIndicators s)"
    "rendered (world s') =
       (if fires then rendered (world s) @
                      [template_variables vals exchange market b q indicator index an st ls]
        else rendered (world s))"
    "new_message s' =
       (if fires then new_message s @ render env template
                       (template_variables vals exchange market b q indicator index an st ls)
        else new_message s)"
    "sendNotification s' = (fires \<or> sendNotification s)"
    "hotCount s' = (if st = ''hot'' \<and> indicator \<noteq> ''ichimoku'' \<and> ty \<noteq> ''informants''
                       \<and> ty \<noteq> ''crossovers'' then hotCount s + 1 else hotCount s)"
    "couldCount s' = (if st = ''cold'' \<and> indicator \<noteq> ''ichimoku'' \<and> ty \<noteq> ''informants''
                       \<and> ty \<noteq> ''crossovers'' then couldCount s + 1 else couldCount s)"
    "crossedData s' = crossedData s"
    "informatntData s' = informatntData s"
    "allIndicatorData s' = setitem (allIndicatorData s) indicator
        (json_indicator vals exchange market b q indicator index an st ls False)"
proof -
  from assms obtain st where st: "classify (latest_result s) = Inr st"
    by (cases "classify (latest_result s)") (simp_all add: alert_step_def)
  from assms st obtain h where
    h: "set_status (heap (world s)) a market ty indicator index st = Inr h"
    by (cases "set_status (heap (world s)) a market ty indicator index st")
       (simp_all add: alert_step_def Let_def)
  from assms have s': "s' = projr (alert_step env template a exchange market b q ty indicator index an vals s)"
    by simp
  show thesis
    apply (rule that[of st h "last_status_of h (last_analysis (world s)) exchange market ty indicator index"
          "(st = ''hot'' \<or> st = ''cold'') \<and> fst (should_alert_of (config an)
             (last_status_of h (last_analysis (world s)) exchange market ty indicator index) st)"])
    by (simp_all add: s' alert_step_def st h Let_def print_def split: option.splits)
qed

lemma process_instance_indicators:
  assumes "process_instance env template a exchange market b q ''indicators'' indicator (index, Analysis an) s = Inr s'"
    and "result an \<noteq> []"
  shows "\<exists>vals. signal_values env an = Inr vals \<and>
     alert_step env template a exchange market b q ''indicators'' indicator index an vals (bind_latest an s) = Inr s'"
  using assms by (auto simp: process_instance_def bind_err_Inr)


lemma bind_latest_fields:
  "world (bind_latest an s) = world s" "new_message (bind_latest an s) = new_message s"
  "primaryIndicators (bind_latest an s) = primaryIndicators s"
  "hotCount (bind_latest an s) = hotCount s" "couldCount (bind_latest an s) = couldCount s"
  "sendNotification (bind_latest an s) = sendNotification s"
  "allIndicatorData (bind_latest an s) = allIndicatorData s"
  "crossedData (bind_latest an s) = crossedData s"
  "informatntData (bind_latest an s) = informatntData s"
  by (simp_all add: bind_latest_def split: option.splits list.splits)



subsection \<open>Invariants of the iteration\<close>


lemma for_each_invariant:
  assumes "for_each body xs s = Inr s'" and "P s"
    and "\<And>x t t'. P t \<Longrightarrow> body x t = Inr t' \<Longrightarrow> P t'"
  shows "P s'"
  using assms(1,2)
proof (induction xs arbitrary: s)
  case Nil
  then show ?case by simp
next
  case (Cons x xs)
  then show ?case using assms(3) by (auto split: sum.splits)
qed

lemma informants_step_effect:
  assumes "informants_step env indicator an s = Inr s'"
  shows "world s' = world s \<and> new_message s' = new_message s \<and>
         sendNotification s' = sendNotification s \<and> primaryIndicators s' = primaryIndicators s \<and>
         hotCount s' = hotCount s \<and> couldCount s' = couldCount s"
  using assms by (auto simp: informants_step_def bind_err_Inr Let_def bind_latest_fields)

lemma crossovers_step_effect:
  assumes "crossovers_step env a market an s = Inr s'"
  shows "world s' = world s \<and> new_message s' = new_message s \<and>
         sendNotification s' = sendNotification s \<and> primaryIndicators s' = primaryIndicators s \<and>
         hotCount s' = hotCount s \<and> couldCount s' = couldCount s"
proof -
  from assms obtain nm dc where
    "s' = s\<lparr>latest_result := Some (last (result an)),
            allIndicatorData := setitem (allIndicatorData s) ''crosed'' (PBool True),
            crossedData := setitem (crossedData s) nm dc\<rparr>"
    unfolding crossovers_step_def Let_def bind_err_Inr by blast
  then show ?thesis by simp
qed

lemma process_instance_cases:
  assumes "process_instance env template a exchange market b q ty indicator (index, entry) s = Inr s'"
  obtains (skip) "s' = s"
  | (informants) an where "entry = Analysis an" "informants_step env indicator an s = Inr s'"
  | (crossovers) an where "entry = Analysis an" "crossovers_step env a market an s = Inr s'"
  | (alert) an vals s0 where "entry = Analysis an" "result an \<noteq> []"
      "world s0 = world s" "new_message s0 = new_message s"
      "sendNotification s0 = sendNotification s" "primaryIndicators s0 = primaryIndicators s"
      "hotCount s0 = hotCount s" "couldCount s0 = couldCount s"
      "alert_step env template a exchange market b q ty indicator index an vals s0 = Inr s'"
proof -
  from assms obtain an where an: "entry = Analysis an"
    by (auto simp: process_instance_def bind_err_Inr analysis_of_Inr)
  show thesis
  proof (cases "result an = []")
    case True
    with assms an show ?thesis by (intro skip) (simp add: process_instance_def)
  next
    case rows: False
    show ?thesis
    proof (cases "ty = ''informants''")
      case True
      with assms an rows show ?thesis by (intro informants[of an]) (simp_all add: process_instance_def)
    next
      case ninf: False
      show ?thesis
      proof (cases "ty = ''indicators''")
        case True
        with assms an rows obtain vals where
          "alert_step env template a exchange market b q ty indicator index an vals (bind_latest an s) = Inr s'"
          by (auto simp: process_instance_def bind_err_Inr)
        then show ?thesis using an rows
          by (intro alert[of an "bind_latest an s" vals]) (simp_all add: bind_latest_fields)
      next
        case nind: False
        show ?thesis
        proof (cases "ty = ''crossovers''")
          case True
          with assms an rows ninf nind show ?thesis
            by (intro crossovers[of an]) (simp_all add: process_instance_def)
        next
          case False
          with assms an rows ninf nind 
          have "alert_step env template a exchange market b q ty indicator index an [] s = Inr s'"
            by (simp add: process_instance_def)
          then show ?thesis using an rows by (intro alert[of an s "[]"]) simp_all
        qed
      qed
    qed
  qed
qed

lemma pair_loop_invariant:
  assumes run: "pair_loop env template a exchange market b q s = Inr s'" and init: "P s"
    and inst: "\<And>ty ind ie t t'. P t \<Longrightarrow>
      process_instance env template a exchange market b q ty ind ie t = Inr t' \<Longrightarrow> P t'"
    and pr: "\<And>t x. P t \<Longrightarrow> P (t\<lparr>world := print x (world t)\<rparr>)"
  shows "P s'"
proof -
  have ind: "P t'" if "P t" "indicator_body env template a exchange market b q ty ind t = Inr t'"
    for ty ind t t'
    using that(2) unfolding indicator_body_def bind_err_Inr
    by (elim exE conjE) (erule for_each_invariant[where P=P], rule that(1), erule (1) inst)
  have tbody: "P t'" if "P t" "type_body env template a exchange market b q ty t = Inr t'"
    for ty t t'
    using that(2) unfolding type_body_def Let_def bind_err_Inr
    by (elim exE conjE) (erule for_each_invariant[where P=P], rule pr[OF that(1)], erule (1) ind)
  from run show ?thesis unfolding pair_loop_def bind_err_Inr
    by (elim exE conjE) (erule for_each_invariant[where P=P], rule init, erule (1) tbody)
qed

lemma pair_finish_cases:
  assumes "pair_finish env n s = Inr s'"
  obtains (quiet) "\<not> composite_fires n s" "s' = s"
  | (fired) w2 d l where "composite_fires n s"
      "notify_custom_telegram env n d (print (PrintStr l) (world s)) = Inr w2"
      "s' = s\<lparr>world := w2, allIndicatorData := d\<rparr>"
  using assms by (auto simp: pair_finish_def Let_def bind_err_Inr split: if_splits)

lemma templater_loop_invariant:
  assumes run: "for_each (exchange_body env n template new_analysis) xs s = Inr s'"
    and init: "P s"
    and inst: "\<And>a exchange market b q ty ind ie t t'. getitem new_analysis exchange = Inr a \<Longrightarrow>
      P t \<Longrightarrow> process_instance env template a exchange market b q ty ind ie t = Inr t' \<Longrightarrow> P t'"
    and pr: "\<And>t x. P t \<Longrightarrow> P (t\<lparr>world := print x (world t)\<rparr>)"
    and start: "\<And>t e b q. P t \<Longrightarrow> P (pair_start e b q t)"
    and finish: "\<And>t t'. P t \<Longrightarrow> pair_finish env n t = Inr t' \<Longrightarrow> P t'"
  shows "P s'"
proof -
  have mk: "P t'" if "P t" "getitem new_analysis exchange = Inr a"
    "market_body env n template a exchange market t = Inr t'" for a exchange market t t'
  proof -
    from that(3) obtain b q t2 where
      loop: "pair_loop env template a exchange market b q (pair_start exchange b q t) = Inr t2"
      and fin: "pair_finish env n t2 = Inr t'"
      by (auto simp: market_body_def bind_err_Inr)
    have "P t2"
      by (rule pair_loop_invariant[where P=P, OF loop start[OF that(1)]]) (erule (1) inst[OF that(2)], erule pr)
    then show ?thesis using fin by (rule finish)
  qed
  have ex: "P t'" if "P t" "exchange_body env n template new_analysis exchange t = Inr t'"
    for exchange t t'
    using that(2) unfolding exchange_body_def bind_err_Inr
    by (elim exE conjE) (erule for_each_invariant[where P=P], rule that(1), erule (2) mk)
  from run init show ?thesis
    by (rule for_each_invariant) (erule (1) ex)
qed


lemmas loop_defs = indicator_message_templater_def exchange_body_def market_body_def
  split_market_def pair_loop_def type_body_def indicator_body_def pair_finish_def
  composite_fires_def


subsection \<open>Eligibility, tallies and the primary flag\<close>








text \<open>
  C4. The \<open>jsonIndicator\<close> stored for an instance of the family \<open>indicators\<close> always has
  \<open>primary\<close> false: the name is appended to \<open>primaryIndicators\<close> before the length of the
  list is compared with zero, so the branch that sets the flag is never taken, not
  even for the first eligible indicator of the pair.
\<close>

theorem primary_flag_is_never_set:
  assumes run: "process_instance env template a exchange market b q ''indicators'' indicator
                  (index, Analysis an) s = Inr s'"
    and rows: "result an \<noteq> []"
  shows "\<exists>fields. map_of (allIndicatorData s') indicator = Some (Dict fields) \<and>
           map_of fields ''primary'' = Some (PBool False)"
proof -
  from process_instance_indicators[OF run rows] obtain vals where
    step: "alert_step env template a exchange market b q ''indicators'' indicator index an vals
             (bind_latest an s) = Inr s'" by blast
  from step obtain st ls where
    "allIndicatorData s' = setitem (allIndicatorData (bind_latest an s)) indicator
        (json_indicator vals exchange market b q indicator index an st ls False)"
    by (rule alert_step_effect)
  then show ?thesis
    by (simp add: map_of_setitem json_indicator_def)
qed


theorem primary_flag_first_eligible:
  "(let s' = projr (process_instance sample_env ''t'' 0 ''binance'' ''BTC/USDT'' ''BTC'' ''USDT''
                      ''indicators'' ''rsi'' (0, Analysis rsi_record) later_state)
    in process_instance sample_env ''t'' 0 ''binance'' ''BTC/USDT'' ''BTC'' ''USDT''
         ''indicators'' ''rsi'' (0, Analysis rsi_record) later_state = Inr s' \<and>
       primaryIndicators later_state = [] \<and>
       primaryIndicators s' = [''rsi''] \<and>
       bind_err (getitem (allIndicatorData s') ''rsi'') (\<lambda>j. py_getitem j ''primary'')
         = Inr (PBool False))"
proof -
  have rows: "result rsi_record \<noteq> []" by (simp add: rsi_record_def)
  have run: "process_instance sample_env ''t'' 0 ''binance'' ''BTC/USDT'' ''BTC'' ''USDT''
               ''indicators'' ''rsi'' (0, Analysis rsi_record) later_state
             = Inr (projr (process_instance sample_env ''t'' 0 ''binance'' ''BTC/USDT'' ''BTC''
                      ''USDT'' ''indicators'' ''rsi'' (0, Analysis rsi_record) later_state))"
    by (simp add: step_defs sample_defs Let_def)
  from primary_flag_is_never_set[OF run rows] run
  show ?thesis
    by (simp add: step_defs sample_defs Let_def)
qed

subsection \<open>What a pass over the analysis leaves alone\<close>

lemma notify_custom_telegram_frame:
  assumes "notify_custom_telegram env n d w = Inr w'"
  shows "heap w' = heap w \<and> last_analysis w' = last_analysis w \<and> rendered w' = rendered w \<and>
         webhook_sent w' = webhook_sent w"
  using assms by (auto simp: notify_custom_telegram_cases print_def split: sum.splits)

lemma process_instance_frame:
  assumes "process_instance env template a exchange market b q ty ind ie t = Inr t'"
  shows "last_analysis (world t') = last_analysis (world t) \<and>
         (\<forall>a'. a' \<noteq> a \<longrightarrow> heap (world t') a' = heap (world t) a')"
proof -
  obtain index entry where ie: "ie = (index, entry)" by (cases ie)
  from assms[unfolded ie] show ?thesis
  proof (cases rule: process_instance_cases)
    case skip
    then show ?thesis by simp
  next
    case (informants an)
    with informants_step_effect[OF informants(2)] show ?thesis by simp
  next
    case (crossovers an)
    with crossovers_step_effect[OF crossovers(2)] show ?thesis by simp
  next
    case (alert an vals s0)
    from alert(9) obtain st h where
      "set_status (heap (world s0)) a market ty ind index st = Inr h"
      "heap (world t') = h" "last_analysis (world t') = last_analysis (world s0)"
      by (rule alert_step_effect)
    with alert(3) show ?thesis by (auto simp: set_status_other)
  qed
qed

lemma pair_finish_frame:
  assumes "pair_finish env n t = Inr t'"
  shows "heap (world t') = heap (world t) \<and> last_analysis (world t') = last_analysis (world t) \<and>
         rendered (world t') = rendered (world t) \<and> new_message t' = new_message t"
  using assms
proof (cases rule: pair_finish_cases)
  case quiet
  then show ?thesis by simp
next
  case (fired w2 d l)
  with notify_custom_telegram_frame[OF fired(2)] show ?thesis by (simp add: print_def)
qed

lemma templater_last_analysis:
  assumes "for_each (exchange_body env n template new_analysis) xs s = Inr s'"
  shows "last_analysis (world s') = last_analysis (world s)"
  by (rule templater_loop_invariant[where P="\<lambda>t. last_analysis (world t) = last_analysis (world s)",
        OF assms])
     (simp_all add: process_instance_frame pair_finish_frame print_def pair_start_def)

lemma templater_heap_frame:
  assumes "for_each (exchange_body env n template new_analysis) xs s = Inr s'"
    and "a \<notin> snd ` set new_analysis"
  shows "heap (world s') a = heap (world s) a"
proof (rule templater_loop_invariant[where P="\<lambda>t. heap (world t) a = heap (world s) a",
        OF assms(1)])
  fix a' exchange market b q ty ind ie t t'
  assume g: "getitem new_analysis exchange = Inr a'" and P: "heap (world t) a = heap (world s) a"
    and run: "process_instance env template a' exchange market b q ty ind ie t = Inr t'"
  from g have "(exchange, a') \<in> set new_analysis" by (auto simp: getitem_Inr dest: map_of_SomeD)
  with assms(2) have "a \<noteq> a'" by force
  with process_instance_frame[OF run] P show "heap (world t') a = heap (world s) a" by simp
qed (simp_all add: pair_finish_frame print_def pair_start_def)

lemma map_of_fold_setitem:
  "distinct (map fst b) \<Longrightarrow>
   map_of (fold (\<lambda>(k, v) d. setitem d k v) b a) k =
     (case map_of b k of Some v \<Rightarrow> Some v | None \<Rightarrow> map_of a k)"
proof (induction b arbitrary: a)
  case Nil
  then show ?case by simp
next
  case (Cons kv b)
  obtain k1 v1 where kv: "kv = (k1, v1)" by (cases kv)
  from Cons.prems kv have "map_of b k1 = None"
    by (auto simp: map_of_eq_None_iff)
  with Cons kv show ?case by (auto simp: map_of_setitem split: option.splits)
qed

lemma map_of_dict_merge:
  "distinct (map fst b) \<Longrightarrow>
   map_of (dict_merge a b) k = (case map_of b k of Some v \<Rightarrow> Some v | None \<Rightarrow> map_of a k)"
  unfolding dict_merge_def by (rule map_of_fold_setitem)

lemma templater_Inr:
  assumes "indicator_message_templater env n new_analysis template w = Inr (message, w')"
  obtains s where
    "for_each (exchange_body env n template new_analysis) (map fst new_analysis)
       (start_state (if last_analysis w = [] then w\<lparr>last_analysis := new_analysis\<rparr> else w)) = Inr s"
    "message = new_message s"
    "w' = (world s)\<lparr>last_analysis := dict_merge (last_analysis (world s)) new_analysis\<rparr>"
  using assms by (auto simp: indicator_message_templater_def Let_def bind_err_Inr)


subsection \<open>The composite trigger\<close>

lemma process_instance_send_flag:
  assumes "process_instance env template a exchange market b q ty ind ie t = Inr t'"
    and "sendNotification t \<longleftrightarrow> primaryIndicators t \<noteq> []"
  shows "sendNotification t' \<longleftrightarrow> primaryIndicators t' \<noteq> []"
proof -
  obtain index entry where ie: "ie = (index, entry)" by (cases ie)
  from assms(1)[unfolded ie] show ?thesis
  proof (cases rule: process_instance_cases)
    case skip
    with assms(2) show ?thesis by simp
  next
    case (informants an)
    with assms(2) informants_step_effect[OF informants(2)] show ?thesis by simp
  next
    case (crossovers an)
    with assms(2) crossovers_step_effect[OF crossovers(2)] show ?thesis by simp
  next
    case (alert an vals s0)
    from alert(9) obtain fires where
      "primaryIndicators t' = (if fires then primaryIndicators s0 @ [ind] else primaryIndicators s0)"
      "sendNotification t' = (fires \<or> sendNotification s0)"
      by (rule alert_step_effect)
    with assms(2) alert(5,6) show ?thesis by auto
  qed
qed


text \<open>
  C2. At the end of the loop over a pair, the test that guards the call of
  \<open>notify_custom_telegram\<close> holds exactly when at least two names were appended to
  \<open>primaryIndicators\<close> and one of the two tallies has reached its setting (the flag
  \<open>sendNotification\<close> is true whenever the list is not empty). When the test fails
  nothing is done; when it holds, \<open>notify_custom_telegram\<close> is called with the data of
  the pair, to which the crossover and informant maps have been attached.
\<close>

theorem composite_trigger:
  assumes "pair_loop env template a exchange market b q (pair_start exchange b q s) = Inr s2"
  shows "(composite_fires n s2 \<longleftrightarrow>
            length (primaryIndicators s2) \<ge> 2 \<and>
            (int (hotCount s2) \<ge> max_hot_notification (config_settings n) \<or>
             int (couldCount s2) \<ge> max_cold_notification (config_settings n))) \<and>
         (\<not> composite_fires n s2 \<longrightarrow> pair_finish env n s2 = Inr s2) \<and>
         (composite_fires n s2 \<longrightarrow>
            (\<exists>data line. pair_finish env n s2 =
               bind_err (notify_custom_telegram env n data (print (PrintStr line) (world s2)))
                 (\<lambda>w2. Inr (s2\<lparr>world := w2, allIndicatorData := data\<rparr>)) \<and>
               map_of data ''crossed'' = Some (Dict (crossedData s2)) \<and>
               map_of data ''informants'' = Some (Dict (informatntData s2))))"
proof -
  have "sendNotification s2 \<longleftrightarrow> primaryIndicators s2 \<noteq> []"
    by (rule pair_loop_invariant[where P="\<lambda>t. sendNotification t \<longleftrightarrow> primaryIndicators t \<noteq> []",
          OF assms])
       (simp_all add: pair_start_def process_instance_send_flag)
  then have "composite_fires n s2 \<longleftrightarrow>
            length (primaryIndicators s2) \<ge> 2 \<and>
            (int (hotCount s2) \<ge> max_hot_notification (config_settings n) \<or>
             int (couldCount s2) \<ge> max_cold_notification (config_settings n))"
    by (auto simp: composite_fires_def)
  moreover have "\<not> composite_fires n s2 \<longrightarrow> pair_finish env n s2 = Inr s2"
    by (simp add: pair_finish_def)
  moreover have "composite_fires n s2 \<longrightarrow>
            (\<exists>data line. pair_finish env n s2 =
               bind_err (notify_custom_telegram env n data (print (PrintStr line) (world s2)))
                 (\<lambda>w2. Inr (s2\<lparr>world := w2, allIndicatorData := data\<rparr>)) \<and>
               map_of data ''crossed'' = Some (Dict (crossedData s2)) \<and>
               map_of data ''informants'' = Some (Dict (informatntData s2)))"
    by (auto simp: pair_finish_def Let_def map_of_setitem)
  ultimately show ?thesis by blast
qed


theorem composite_trigger_witness:
  "(let s2 = projr (pair_loop sample_env ''t'' 0 ''binance'' ''BTC/USDT'' ''BTC'' ''USDT''
          later_state)
    in pair_loop sample_env ''t'' 0 ''binance'' ''BTC/USDT'' ''BTC'' ''USDT''
          later_state = Inr s2 \<and>
       primaryIndicators s2 = [''rsi'', ''ichimoku''] \<and>
       hotCount s2 = 1 \<and> couldCount s2 = 0 \<and>
       composite_fires sample_notifier s2)"
proof -
  have ok: "\<not> isl (pair_loop sample_env ''t'' 0 ''binance'' ''BTC/USDT'' ''BTC'' ''USDT''
          later_state)"
    by code_simp
  then have run: "pair_loop sample_env ''t'' 0 ''binance'' ''BTC/USDT'' ''BTC'' ''USDT''
          later_state = Inr (projr (pair_loop sample_env ''t'' 0 ''binance'' ''BTC/USDT'' ''BTC'' ''USDT''
          later_state))"
    by simp
  have state: "later_state = pair_start ''binance'' ''BTC'' ''USDT'' (start_state later_world)"
    by (simp add: later_state_def)
  have vals: "primaryIndicators (projr (pair_loop sample_env ''t'' 0 ''binance'' ''BTC/USDT'' ''BTC'' ''USDT''
          later_state)) = [''rsi'', ''ichimoku'']"
    "hotCount (projr (pair_loop sample_env ''t'' 0 ''binance'' ''BTC/USDT'' ''BTC'' ''USDT''
          later_state)) = 1" "couldCount (projr (pair_loop sample_env ''t'' 0 ''binance'' ''BTC/USDT'' ''BTC'' ''USDT''
          later_state)) = 0"
    "composite_fires sample_notifier (projr (pair_loop sample_env ''t'' 0 ''binance'' ''BTC/USDT'' ''BTC'' ''USDT''
          later_state))"
    by code_simp+
  from composite_trigger[OF run[unfolded state], where n = sample_notifier] run vals
  show ?thesis by (simp add: state)
qed

subsection \<open>The state merge\<close>

text \<open>
  C6. When the templater returns, \<open>last_analysis\<close> maps every exchange of the new
  analysis to the object the new analysis holds for it, and every other exchange to
  what it was mapped to before; an object that the new analysis does not hold is
  itself unchanged. (The keys of a dictionary are distinct.)
\<close>

theorem state_merge_by_exchange:
  assumes run: "indicator_message_templater env n new_analysis template w = Inr (message, w')"
    and keys: "distinct (map fst new_analysis)"
  shows "(\<forall>exchange. exchange \<notin> fst ` set new_analysis \<longrightarrow>
            map_of (last_analysis w') exchange = map_of (last_analysis w) exchange) \<and>
         (\<forall>exchange a. (exchange, a) \<in> set new_analysis \<longrightarrow>
            map_of (last_analysis w') exchange = Some a) \<and>
         (\<forall>a. a \<notin> snd ` set new_analysis \<longrightarrow> heap w' a = heap w a)"
proof -
  from run obtain s where
    loop: "for_each (exchange_body env n template new_analysis) (map fst new_analysis)
       (start_state (if last_analysis w = [] then w\<lparr>last_analysis := new_analysis\<rparr> else w)) = Inr s"
    and w': "w' = (world s)\<lparr>last_analysis := dict_merge (last_analysis (world s)) new_analysis\<rparr>"
    by (rule templater_Inr)
  have last: "last_analysis (world s) = (if last_analysis w = [] then new_analysis else last_analysis w)"
    using templater_last_analysis[OF loop] by (simp add: start_state_def)
  have absent: "map_of (last_analysis w') exchange = map_of (last_analysis w) exchange"
    if "exchange \<notin> fst ` set new_analysis" for exchange
  proof -
    from that have "map_of new_analysis exchange = None" by (simp add: map_of_eq_None_iff)
    then show ?thesis by (simp add: w' map_of_dict_merge[OF keys] last)
  qed
  have present: "map_of (last_analysis w') exchange = Some a"
    if "(exchange, a) \<in> set new_analysis" for exchange a
    using that keys by (simp add: w' map_of_dict_merge[OF keys])
  have frame: "heap w' a = heap w a" if "a \<notin> snd ` set new_analysis" for a
    using templater_heap_frame[OF loop that] by (simp add: w' start_state_def)
  from absent present frame show ?thesis by blast
qed


theorem state_merge_by_exchange_witness:
  "(let r = projr (indicator_message_templater sample_env sample_notifier sample_analysis ''t''
         later_world)
    in distinct (map fst sample_analysis) \<and>
       indicator_message_templater sample_env sample_notifier sample_analysis ''t''
         later_world = Inr r \<and>
       last_analysis later_world = [(''kraken'', 2), (''binance'', 1)] \<and>
       last_analysis (snd r) = [(''kraken'', 2), (''binance'', 0)] \<and>
       heap (snd r) 2 = heap later_world 2)"
proof -
  have keys: "distinct (map fst sample_analysis)" by (simp add: sample_analysis_def)
  have ok: "\<not> isl (indicator_message_templater sample_env sample_notifier sample_analysis ''t''
         later_world)"
    by code_simp
  then have run: "indicator_message_templater sample_env sample_notifier sample_analysis ''t''
         later_world
      = Inr (fst (projr (indicator_message_templater sample_env sample_notifier sample_analysis ''t''
         later_world)), snd (projr (indicator_message_templater sample_env sample_notifier sample_analysis ''t''
         later_world)))"
    by simp
  have vals: "last_analysis later_world = [(''kraken'', 2), (''binance'', 1)]"
    "last_analysis (snd (projr (indicator_message_templater sample_env sample_notifier sample_analysis ''t''
         later_world))) = [(''kraken'', 2), (''binance'', 0)]"
    "heap (snd (projr (indicator_message_templater sample_env sample_notifier sample_analysis ''t''
         later_world))) 2 = heap later_world 2"
    by code_simp+
  from state_merge_by_exchange[OF run keys] keys ok vals
  show ?thesis by simp
qed

subsection \<open>The first cycle\<close>








subsection \<open>Mutation of the analysis data\<close>

lemma map_values_setitem:
  "map_of d k = Some v \<Longrightarrow> f v' = f v \<Longrightarrow> map_values f (setitem d k v') = map_values f d"
  by (induction d k v' rule: setitem.induct) (auto simp: map_values_def)

lemma filter_setitem:
  "filter (\<lambda>kv. fst kv \<noteq> k) (setitem r k v) = filter (\<lambda>kv. fst kv \<noteq> k) r"
  by (induction r k v rule: setitem.induct) auto

lemma store_entry_without_status:
  assumes "store_entry h a mk ty ind i v = Inr h'"
    and "entries_at h a mk ty ind = Inr es"
    and "entry_without_status v = entry_without_status (es ! i)"
  shows "without_status (h' a') = without_status (h a')"
proof (cases "a' = a")
  case False
  with assms(1) show ?thesis by (simp add: store_entry_other)
next
  case True
  from assms(1,2) obtain m t where
    m: "map_of (h a) mk = Some m" and t: "map_of m ty = Some t" and es: "map_of t ind = Some es"
    and i: "i < length es"
    and h': "h' = h(a := setitem (h a) mk (setitem m ty (setitem t ind (es[i := v]))))"
    by (auto simp: store_entry_def entries_at_def bind_err_Inr getitem_Inr split: if_splits)
  have "map entry_without_status (es[i := v]) = map entry_without_status es"
    using i assms(3) by (simp add: list_eq_iff_nth_eq nth_list_update)
  then have "map_values (map entry_without_status) (setitem t ind (es[i := v]))
           = map_values (map entry_without_status) t"
    by (intro map_values_setitem[OF es])
  then have "map_values (map_values (map entry_without_status)) (setitem m ty (setitem t ind (es[i := v])))
           = map_values (map_values (map entry_without_status)) m"
    by (intro map_values_setitem[OF t])
  then have "without_status (setitem (h a) mk (setitem m ty (setitem t ind (es[i := v]))))
           = without_status (h a)"
    unfolding without_status_def by (intro map_values_setitem[OF m])
  with True h' show ?thesis by simp
qed

lemma set_status_without_status:
  assumes "set_status h a mk ty ind i st = Inr h'"
  shows "without_status (h' a') = without_status (h a')"
proof -
  from assms obtain es where es: "entries_at h a mk ty ind = Inr es" "i < length es"
    by (auto simp: set_status_def bind_err_Inr split: if_splits)
  from assms es obtain v where v: "store_entry h a mk ty ind i v = Inr h'"
    and vs: "entry_without_status v = entry_without_status (es ! i)"
    by (auto simp: set_status_def filter_setitem split: entry.splits)
  from store_entry_without_status[OF v es(1) vs] show ?thesis .
qed

lemma process_instance_without_status:
  assumes "process_instance env template a exchange market b q ty ind ie t = Inr t'"
  shows "without_status (heap (world t') a') = without_status (heap (world t) a')"
proof -
  obtain index entry where ie: "ie = (index, entry)" by (cases ie)
  from assms[unfolded ie] show ?thesis
  proof (cases rule: process_instance_cases)
    case skip
    then show ?thesis by simp
  next
    case (informants an)
    with informants_step_effect[OF informants(2)] show ?thesis by simp
  next
    case (crossovers an)
    with crossovers_step_effect[OF crossovers(2)] show ?thesis by simp
  next
    case (alert an vals s0)
    from alert(9) obtain st h where
      "set_status (heap (world s0)) a market ty ind index st = Inr h"
      "heap (world t') = h"
      by (rule alert_step_effect)
    with alert(3) show ?thesis by (simp add: set_status_without_status)
  qed
qed


text \<open>
  C8, as the claim states it, fails: the webhook path is not the status write-back, and
  it replaces the records of the analysis, in place, by their last rows.
\<close>

theorem webhook_replaces_records:
  "webhook_configured sample_notifier \<and>
   \<not> isl (notify_webhook sample_notifier sample_analysis first_world) \<and>
   heap first_world 0 =
     [(''BTC/USDT'',
       [(''indicators'',
         [(''rsi'', [Analysis rsi_record]), (''ichimoku'', [Analysis ichimoku_record])])])] \<and>
   heap (projr (notify_webhook sample_notifier sample_analysis first_world)) 0 =
     [(''BTC/USDT'',
       [(''indicators'',
         [(''rsi'', [RowObj hot_row]), (''ichimoku'', [RowObj ichimoku_row])])])]"
  by code_simp

text \<open>
  C8, amended. The templater changes the analysis data at the \<open>status\<close> keys only:
  with those keys removed, every exchange object is after the call what it was before.
  (The webhook path, in contrast, replaces every record.)
\<close>

theorem templater_writes_status_only:
  assumes "indicator_message_templater env n new_analysis template w = Inr (message, w')"
  shows "\<forall>a. without_status (heap w' a) = without_status (heap w a)"
proof
  fix a
  from assms obtain s where
    loop: "for_each (exchange_body env n template new_analysis) (map fst new_analysis)
       (start_state (if last_analysis w = [] then w\<lparr>last_analysis := new_analysis\<rparr> else w)) = Inr s"
    and w': "w' = (world s)\<lparr>last_analysis := dict_merge (last_analysis (world s)) new_analysis\<rparr>"
    by (rule templater_Inr)
  have "without_status (heap (world s) a) = without_status (heap w a)"
    by (rule templater_loop_invariant[where
          P="\<lambda>t::tstate. without_status (heap (world t) a) = without_status (heap w a)", OF loop])
       (simp_all add: start_state_def process_instance_without_status pair_finish_frame
          print_def pair_start_def)
  then show "without_status (heap w' a) = without_status (heap w a)" by (simp add: w')
qed


theorem templater_writes_status_only_witness:
  "(let r = projr (indicator_message_templater sample_env sample_notifier sample_analysis ''t''
         later_world)
    in indicator_message_templater sample_env sample_notifier sample_analysis ''t''
         later_world = Inr r \<and>
       heap (snd r) 0 \<noteq> heap later_world 0 \<and>
       without_status (heap (snd r) 0) = without_status (heap later_world 0))"
proof -
  have ok: "\<not> isl (indicator_message_templater sample_env sample_notifier sample_analysis ''t''
         later_world)"
    by code_simp
  then have run: "indicator_message_templater sample_env sample_notifier sample_analysis ''t''
         later_world
      = Inr (fst (projr (indicator_message_templater sample_env sample_notifier sample_analysis ''t''
         later_world)), snd (projr (indicator_message_templater sample_env sample_notifier sample_analysis ''t''
         later_world)))"
    by simp
  have vals: "heap (snd (projr (indicator_message_templater sample_env sample_notifier sample_analysis ''t''
         later_world))) 0 \<noteq> heap later_world 0"
    "without_status (heap (snd (projr (indicator_message_templater sample_env sample_notifier sample_analysis ''t''
         later_world))) 0)
       = without_status (heap later_world 0)"
    by code_simp+
  from templater_writes_status_only[OF run] ok vals
  show ?thesis by simp
qed

subsection \<open>The webhook payload\<close>

lemma records_only_iff: "records_only es \<longleftrightarrow> (\<forall>e \<in> set es. \<exists>an. e = Analysis an)"
proof -
  have "is_record e \<longleftrightarrow> (\<exists>an. e = Analysis an)" for e by (cases e) simp_all
  then show ?thesis by (simp add: records_only_def list_all_iff)
qed

lemma setitem_same: "map_of d k = Some v \<Longrightarrow> setitem d k v = d"
  by (induction d k v rule: setitem.induct) (auto split: if_splits)

lemma setitem_setitem: "setitem (setitem d k v) k v' = setitem d k v'"
  by (induction d k v rule: setitem.induct) auto

lemma setitem_append:
  "k \<notin> fst ` set done \<Longrightarrow> setitem (done @ (k, v) # rest) k v' = done @ (k, v') # rest"
  by (induction "done") auto

lemma map_of_append_head:
  "k \<notin> fst ` set done \<Longrightarrow> map_of (done @ (k, v) # rest) k = Some v"
  by (induction "done") auto

lemma webhook_instance_record:
  assumes "map_of (h a) mk = Some m" "map_of m ty = Some t" "map_of t ind = Some es"
    and "i < length es"
  shows "webhook_instance a mk ty ind (i, Analysis an) h =
           Inr (h(a := setitem (h a) mk (setitem m ty (setitem t ind
                  (es[i := collapsed_entry (Analysis an)])))))"
  using assms by (simp add: webhook_instance_def store_entry_def getitem_def Let_def)

lemma webhook_instances_step:
  assumes "map_of (h a) mk = Some m" "map_of m ty = Some t" "map_of t ind = Some (done @ ys)"
    and "records_only ys"
  shows "for_each (webhook_instance a mk ty ind) (enumerate (length done) ys) h =
           Inr (h(a := setitem (h a) mk (setitem m ty (setitem t ind
                  (done @ map collapsed_entry ys)))))"
  using assms
proof (induction ys arbitrary: h m t "done")
  case Nil
  then show ?case by (simp add: setitem_same)
next
  case (Cons y ys)
  from Cons.prems(4) obtain an where y: "y = Analysis an" and ys: "records_only ys"
    by (auto simp: records_only_iff)
  let ?c = "collapsed_entry (Analysis an)"
  let ?t1 = "setitem t ind ((done @ [?c]) @ ys)"
  let ?m1 = "setitem m ty ?t1"
  let ?h1 = "h(a := setitem (h a) mk ?m1)"
  have step: "webhook_instance a mk ty ind (length done, y) h = Inr ?h1"
    using webhook_instance_record[where h=h and a=a and mk=mk and m=m and ty=ty and t=t
            and ind=ind and es="done @ y # ys" and i="length done" and an=an] Cons.prems(1-3) y
    by (simp del: collapsed_entry.simps)
  have "for_each (webhook_instance a mk ty ind) (enumerate (length done) (y # ys)) h =
        for_each (webhook_instance a mk ty ind) (enumerate (length (done @ [?c])) ys) ?h1"
    using step by (simp del: collapsed_entry.simps)
  also have "\<dots> = Inr (?h1(a := setitem (?h1 a) mk (setitem ?m1 ty (setitem ?t1 ind
                  ((done @ [?c]) @ map collapsed_entry ys)))))"
    by (rule Cons.IH) (simp_all add: map_of_setitem ys)
  also have "?h1(a := setitem (?h1 a) mk (setitem ?m1 ty (setitem ?t1 ind
                  ((done @ [?c]) @ map collapsed_entry ys)))) =
             h(a := setitem (h a) mk (setitem m ty (setitem t ind
                  (done @ map collapsed_entry (y # ys)))))"
    using y by (simp add: setitem_setitem del: collapsed_entry.simps)
  finally show ?case .
qed

lemma webhook_indicator_records:
  assumes "map_of (h a) mk = Some m" "map_of m ty = Some t" "map_of t ind = Some es"
    and "records_only es"
  shows "webhook_indicator a mk ty ind h =
           Inr (h(a := setitem (h a) mk (setitem m ty (setitem t ind (map collapsed_entry es)))))"
  using webhook_instances_step[of h a mk m ty t ind "[]" es] assms
  by (simp add: webhook_indicator_def entries_at_def getitem_def)

lemma webhook_indicators_step:
  assumes "map_of (h a) mk = Some m" "map_of m ty = Some (done @ rest)"
    and "distinct (map fst (done @ rest))" and "\<forall>es \<in> snd ` set rest. records_only es"
  shows "for_each (webhook_indicator a mk ty) (map fst rest) h =
           Inr (h(a := setitem (h a) mk (setitem m ty
                  (done @ map_values (map collapsed_entry) rest))))"
  using assms
proof (induction rest arbitrary: h m "done")
  case Nil
  then show ?case by (simp add: setitem_same map_values_def)
next
  case (Cons kv rest)
  obtain k es where kv: "kv = (k, es)" by (cases kv)
  from Cons.prems(3) kv have notin: "k \<notin> fst ` set done" by auto
  let ?t = "done @ (k, es) # rest"
  let ?t1 = "(done @ [(k, map collapsed_entry es)]) @ rest"
  let ?m1 = "setitem m ty ?t1"
  let ?h1 = "h(a := setitem (h a) mk ?m1)"
  have "webhook_indicator a mk ty k h =
          Inr (h(a := setitem (h a) mk (setitem m ty (setitem ?t k (map collapsed_entry es)))))"
    using Cons.prems kv
    by (intro webhook_indicator_records)
       (simp_all add: map_of_append_head[OF notin] del: map_of_append)
  then have step: "webhook_indicator a mk ty k h = Inr ?h1"
    by (simp add: setitem_append[OF notin])
  have "for_each (webhook_indicator a mk ty) (map fst (kv # rest)) h =
        for_each (webhook_indicator a mk ty) (map fst rest) ?h1"
    using step kv by simp
  also have "\<dots> = Inr (?h1(a := setitem (?h1 a) mk (setitem ?m1 ty
                  ((done @ [(k, map collapsed_entry es)]) @ map_values (map collapsed_entry) rest))))"
    using Cons.prems kv by (intro Cons.IH) (auto simp: map_of_setitem)
  also have "?h1(a := setitem (?h1 a) mk (setitem ?m1 ty
                  ((done @ [(k, map collapsed_entry es)]) @ map_values (map collapsed_entry) rest))) =
             h(a := setitem (h a) mk (setitem m ty
                  (done @ map_values (map collapsed_entry) (kv # rest))))"
    using kv by (simp add: setitem_setitem map_values_def)
  finally show ?case .
qed



lemma webhook_type_records:
  assumes "map_of (h a) mk = Some m" "map_of m ty = Some t"
    and "distinct (map fst t)" and "\<forall>es \<in> snd ` set t. records_only es"
  shows "webhook_type a mk ty h =
           Inr (h(a := setitem (h a) mk (setitem m ty (map_values (map collapsed_entry) t))))"
  using webhook_indicators_step[of h a mk m ty "[]" t] assms
  by (simp add: webhook_type_def getitem_def)

lemma webhook_types_step:
  assumes "map_of (h a) mk = Some (done @ rest)"
    and "distinct (map fst (done @ rest))"
    and "\<forall>t \<in> snd ` set rest. distinct (map fst t) \<and> (\<forall>es \<in> snd ` set t. records_only es)"
  shows "for_each (webhook_type a mk) (map fst rest) h =
           Inr (h(a := setitem (h a) mk
                  (done @ map_values (map_values (map collapsed_entry)) rest)))"
  using assms
proof (induction rest arbitrary: h "done")
  case Nil
  then show ?case by (simp add: setitem_same map_values_def)
next
  case (Cons kv rest)
  obtain k t where kv: "kv = (k, t)" by (cases kv)
  from Cons.prems(2) kv have notin: "k \<notin> fst ` set done" by auto
  let ?m = "done @ (k, t) # rest"
  let ?m1 = "(done @ [(k, map_values (map collapsed_entry) t)]) @ rest"
  let ?h1 = "h(a := setitem (h a) mk ?m1)"
  have "webhook_type a mk k h =
          Inr (h(a := setitem (h a) mk (setitem ?m k (map_values (map collapsed_entry) t))))"
    using Cons.prems kv
    by (intro webhook_type_records)
       (simp_all add: map_of_append_head[OF notin] del: map_of_append)
  then have step: "webhook_type a mk k h = Inr ?h1"
    by (simp add: setitem_append[OF notin])
  have "for_each (webhook_type a mk) (map fst (kv # rest)) h =
        for_each (webhook_type a mk) (map fst rest) ?h1"
    using step kv by simp
  also have "\<dots> = Inr (?h1(a := setitem (?h1 a) mk
                  ((done @ [(k, map_values (map collapsed_entry) t)]) @
                   map_values (map_values (map collapsed_entry)) rest)))"
    using Cons.prems kv by (intro Cons.IH) (auto simp: map_of_setitem)
  also have "?h1(a := setitem (?h1 a) mk
                  ((done @ [(k, map_values (map collapsed_entry) t)]) @
                   map_values (map_values (map collapsed_entry)) rest)) =
             h(a := setitem (h a) mk
                  (done @ map_values (map_values (map collapsed_entry)) (kv # rest)))"
    using kv by (simp add: setitem_setitem map_values_def)
  finally show ?case .
qed

lemma webhook_market_records:
  assumes "map_of (h a) mk = Some m" and "distinct (map fst m)"
    and "\<forall>t \<in> snd ` set m. distinct (map fst t) \<and> (\<forall>es \<in> snd ` set t. records_only es)"
  shows "webhook_market a mk h =
           Inr (h(a := setitem (h a) mk (map_values (map_values (map collapsed_entry)) m)))"
  using webhook_types_step[of h a mk "[]" m] assms
  by (simp add: webhook_market_def getitem_def)

lemma webhook_markets_step:
  assumes "h a = done @ rest"
    and "distinct (map fst (done @ rest))"
    and "\<forall>m \<in> snd ` set rest. distinct (map fst m) \<and>
           (\<forall>t \<in> snd ` set m. distinct (map fst t) \<and> (\<forall>es \<in> snd ` set t. records_only es))"
  shows "for_each (webhook_market a) (map fst rest) h =
           Inr (h(a := done @ map_values (map_values (map_values (map collapsed_entry))) rest))"
  using assms
proof (induction rest arbitrary: h "done")
  case Nil
  then show ?case by (auto simp: map_values_def fun_eq_iff)
next
  case (Cons kv rest)
  obtain k m where kv: "kv = (k, m)" by (cases kv)
  from Cons.prems(2) kv have notin: "k \<notin> fst ` set done" by auto
  let ?c = "map_values (map_values (map collapsed_entry)) m"
  let ?h1 = "h(a := (done @ [(k, ?c)]) @ rest)"
  have "webhook_market a k h = Inr (h(a := setitem (h a) k ?c))"
    using Cons.prems kv
    by (intro webhook_market_records)
       (simp_all add: map_of_append_head[OF notin] del: map_of_append)
  then have step: "webhook_market a k h = Inr ?h1"
    using Cons.prems(1) kv by (simp add: setitem_append[OF notin])
  have "for_each (webhook_market a) (map fst (kv # rest)) h =
        for_each (webhook_market a) (map fst rest) ?h1"
    using step kv by simp
  also have "\<dots> = Inr (?h1(a := (done @ [(k, ?c)]) @
                   map_values (map_values (map_values (map collapsed_entry))) rest))"
    using Cons.prems kv by (intro Cons.IH) auto
  also have "?h1(a := (done @ [(k, ?c)]) @
                   map_values (map_values (map_values (map collapsed_entry))) rest) =
             h(a := done @ map_values (map_values (map_values (map collapsed_entry))) (kv # rest))"
    using kv by (simp add: map_values_def)
  finally show ?case .
qed

lemma webhook_exchange_records:
  assumes "map_of new_analysis exchange = Some a" and "well_formed (h a)"
  shows "webhook_exchange new_analysis exchange h = Inr (h(a := collapsed (h a)))"
  using webhook_markets_step[of h a "[]" "h a"] assms
  by (simp add: webhook_exchange_def getitem_def well_formed_def collapsed_def)

lemma webhook_exchanges_step:
  assumes "distinct (map fst (done @ rest))" and "distinct (map snd rest)"
    and "\<forall>a \<in> snd ` set rest. well_formed (h a)"
  shows "for_each (webhook_exchange (done @ rest)) (map fst rest) h =
           Inr (\<lambda>a. if a \<in> snd ` set rest then collapsed (h a) else h a)"
  using assms
proof (induction rest arbitrary: h "done")
  case Nil
  then show ?case by simp
next
  case (Cons kv rest)
  obtain k a where kv: "kv = (k, a)" by (cases kv)
  from Cons.prems(1) kv have notin: "k \<notin> fst ` set done" by auto
  from Cons.prems(2) kv have fresh: "a \<notin> snd ` set rest" by auto
  let ?h1 = "h(a := collapsed (h a))"
  have step: "webhook_exchange (done @ kv # rest) k h = Inr ?h1"
    using Cons.prems(3) kv
    by (intro webhook_exchange_records)
       (simp_all add: map_of_append_head[OF notin] del: map_of_append)
  have "for_each (webhook_exchange (done @ kv # rest)) (map fst (kv # rest)) h =
        for_each (webhook_exchange ((done @ [kv]) @ rest)) (map fst rest) ?h1"
    using step kv by simp
  also have "\<dots> = Inr (\<lambda>a'. if a' \<in> snd ` set rest then collapsed (?h1 a') else ?h1 a')"
    using Cons.prems kv fresh by (intro Cons.IH) auto
  also have "(\<lambda>a'. if a' \<in> snd ` set rest then collapsed (?h1 a') else ?h1 a') =
             (\<lambda>a'. if a' \<in> snd ` set (kv # rest) then collapsed (h a') else h a')"
    using kv fresh by (auto simp: fun_eq_iff)
  finally show ?case .
qed

text \<open>
  C7. When the webhook is configured and the analysis is well formed (distinct keys,
  distinct exchange objects, analysis records throughout), \<open>notify_webhook\<close> returns
  without an exception; every instance of every exchange of the analysis has been
  replaced, in place, by its last row, or by the empty string when its result has no
  rows; and the webhook client is given exactly that structure.
\<close>

theorem webhook_payload_is_last_rows:
  assumes "webhook_configured n"
    and "distinct (map fst new_analysis)" and "distinct (map snd new_analysis)"
    and "\<forall>a \<in> snd ` set new_analysis. well_formed (heap w a)"
  shows "notify_webhook n new_analysis w =
           Inr (w\<lparr>heap := (\<lambda>a. if a \<in> snd ` set new_analysis then collapsed (heap w a)
                                else heap w a),
                  webhook_sent := webhook_sent w @
                    [map (\<lambda>(exchange, a). (exchange, collapsed (heap w a))) new_analysis]\<rparr>)"
proof -
  have "for_each (webhook_exchange new_analysis) (map fst new_analysis) (heap w) =
          Inr (\<lambda>a. if a \<in> snd ` set new_analysis then collapsed (heap w a) else heap w a)"
    using webhook_exchanges_step[of "[]" new_analysis "heap w"] assms(2-4) by simp
  moreover have "deref (\<lambda>a. if a \<in> snd ` set new_analysis then collapsed (heap w a) else heap w a)
                   new_analysis
                 = map (\<lambda>(exchange, a). (exchange, collapsed (heap w a))) new_analysis"
    by (force simp: deref_def)
  ultimately show ?thesis using assms(1) by (simp add: notify_webhook_def)
qed


theorem webhook_payload_is_last_rows_witness:
  "webhook_configured sample_notifier \<and>
   distinct (map fst sample_analysis) \<and> distinct (map snd sample_analysis) \<and>
   well_formed (heap first_world 0) \<and>
   webhook_sent (projr (notify_webhook sample_notifier sample_analysis first_world)) =
     [ [(''binance'',
        [(''BTC/USDT'',
          [(''indicators'',
            [(''rsi'', [RowObj hot_row]), (''ichimoku'', [RowObj ichimoku_row])])])])]] \<and>
   heap (projr (notify_webhook sample_notifier sample_analysis first_world)) 0 =
     [(''BTC/USDT'',
       [(''indicators'',
         [(''rsi'', [RowObj hot_row]), (''ichimoku'', [RowObj ichimoku_row])])])]"
proof -
  have conf: "webhook_configured sample_notifier" by (simp add: sample_notifier_def)
  have keys: "distinct (map fst sample_analysis)" "distinct (map snd sample_analysis)"
    by (simp_all add: sample_analysis_def)
  have wf: "well_formed (heap first_world 0)"
    by code_simp
  then have wf_all: "\<forall>a \<in> snd ` set sample_analysis. well_formed (heap first_world a)"
    by (simp add: sample_analysis_def)
  have vals: "collapsed (heap first_world 0) =
     [(''BTC/USDT'',
       [(''indicators'',
         [(''rsi'', [RowObj hot_row]), (''ichimoku'', [RowObj ichimoku_row])])])]"
    by code_simp
  have sent: "webhook_sent first_world = []" by (simp add: first_world_def)
  from webhook_payload_is_last_rows[OF conf keys wf_all] conf keys wf vals sent
  show ?thesis by (simp add: sample_analysis_def)
qed

end
